theory Spec2Isabelle
  imports Main "HOL-Library.Log_Nat" "HOL-Library.Multiset"
begin

section \<open>gen-cli: request shaping and size negotiation (main.go)\<close>

text \<open>
  A shallow embedding of \<^verbatim>\<open>main.go\<close>. Go strings are byte strings (\<^typ>\<open>string\<close>), Go
  \<^verbatim>\<open>int\<close> values are \<^typ>\<open>int\<close>, a Go \<^verbatim>\<open>map\<close> literal is the association list of its
  entries in source order (looked up with \<^const>\<open>map_of\<close>), and a \<^verbatim>\<open>float64\<close> is the
  rational number it denotes, every arithmetic result being rounded by \<open>float64\<close> below.
\<close>

subsection \<open>IEEE 754 binary64 arithmetic on the values the program computes\<close>

text \<open>
  \<open>float64 x\<close> rounds the rational \<open>x\<close> to the nearest number with a 53-bit significand,
  ties to even. The exponent is unbounded: all values of \<^verbatim>\<open>getClosestPreset\<close> are
  quotients and differences of 64-bit integers and of the table's constants, which lie
  in the normal range of binary64, where this is exactly the rounding of the hardware.
\<close>

definition pow2 :: "int \<Rightarrow> rat" where
  "pow2 e = (if 0 \<le> e then 2 ^ nat e else 1 / 2 ^ nat (- e))"

definition roundHalfEven :: "rat \<Rightarrow> int" where
  "roundHalfEven x =
     (let f = \<lfloor>x\<rfloor>; r = x - of_int f in
      if r < 1 / 2 then f
      else if 1 / 2 < r then f + 1
      else if even f then f else f + 1)"

text \<open>The binary exponent \<open>e\<close> of a positive rational: \<open>2^e \<le> x < 2^(e+1)\<close>.\<close>

definition binexp :: "rat \<Rightarrow> int" where
  "binexp x =
     (let (p, q) = quotient_of x;
          e0 = bitlen p - bitlen q
      in if x < pow2 e0 then e0 - 1 else e0)"

definition float64 :: "rat \<Rightarrow> rat" where
  "float64 x =
     (if x = 0 then 0
      else let e = binexp \<bar>x\<bar> - 52 in
           sgn x * of_int (roundHalfEven (\<bar>x\<bar> / pow2 e)) * pow2 e)"

subsection \<open>Ratio/preset tables\<close>

text \<open>\<^verbatim>\<open>var ratioToPreset = map[string]string{...}\<close> (main.go 447-453).\<close>

definition ratioToPreset :: "(string \<times> string) list" where
  "ratioToPreset =
     [(''9:16'', ''portrait_16_9''),
      (''3:4'', ''portrait_4_3''),
      (''1:1'', ''square_hd''),
      (''4:3'', ''landscape_4_3''),
      (''16:9'', ''landscape_16_9'')]"

text \<open>
  \<^verbatim>\<open>var aspectRatioSupported = map[string]bool{...}\<close> (main.go 457-469); a key that is
  absent reads as \<^verbatim>\<open>false\<close>. No function of the program reads this table.
\<close>

definition aspectRatioSupported :: "string \<Rightarrow> bool" where
  "aspectRatioSupported s \<longleftrightarrow>
     s \<in> set [''21:9'', ''16:9'', ''3:2'', ''4:3'', ''5:4'', ''1:1'',
              ''4:5'', ''3:4'', ''2:3'', ''9:16'', ''auto'']"

text \<open>
  \<^verbatim>\<open>var aspectPresets = []struct{Name string; Ratio float64}{...}\<close> (main.go 472-481).
  The constant expressions are exact and are rounded once, when they become
  \<^verbatim>\<open>float64\<close>.
\<close>

definition aspectPresets :: "(string \<times> rat) list" where
  "aspectPresets =
     [(''portrait_16_9'', float64 (9 / 16)),
      (''portrait_4_3'', float64 (3 / 4)),
      (''square_hd'', float64 1),
      (''landscape_4_3'', float64 (4 / 3)),
      (''landscape_16_9'', float64 (16 / 9))]"

subsection \<open>Ratio/preset resolver\<close>

text \<open>\<^verbatim>\<open>func parseSize(s string) string\<close> (main.go 484-491).\<close>

definition parseSize :: "string \<Rightarrow> string" where
  "parseSize s = (case map_of ratioToPreset s of Some preset \<Rightarrow> preset | None \<Rightarrow> s)"

text \<open>\<^verbatim>\<open>func abs(x float64) float64\<close> (main.go 525-530).\<close>

definition abs_go :: "rat \<Rightarrow> rat" where
  "abs_go x = (if x < 0 then - x else x)"

text \<open>
  One iteration of the loop of \<^verbatim>\<open>getClosestPreset\<close> on the pair
  \<open>(closestPreset, closestDiff)\<close>.
\<close>

fun closestStep :: "rat \<Rightarrow> string \<times> rat \<Rightarrow> string \<times> rat \<Rightarrow> string \<times> rat" where
  "closestStep ratio (closestPreset, closestDiff) (name, presetRatio) =
     (let diff = abs_go (float64 (ratio - presetRatio)) in
      if diff < closestDiff then (name, diff) else (closestPreset, closestDiff))"

text \<open>\<^verbatim>\<open>func getClosestPreset(width, height int) string\<close> (main.go 493-513).\<close>

definition getClosestPreset :: "int \<Rightarrow> int \<Rightarrow> string" where
  "getClosestPreset width height =
     (if width = 0 \<or> height = 0 then ''square_hd''
      else let ratio = float64 (float64 (of_int width) / float64 (of_int height)) in
           fst (foldl (closestStep ratio) (''square_hd'', 999) aspectPresets))"

text \<open>
  The value of \<^verbatim>\<open>diff\<close> that the loop of \<^verbatim>\<open>getClosestPreset\<close> computes for a table
  entry with reference ratio \<open>presetRatio\<close> (main.go 498 and 505).
\<close>

definition presetDiff :: "int \<Rightarrow> int \<Rightarrow> rat \<Rightarrow> rat" where
  "presetDiff width height presetRatio =
     abs_go (float64 (float64 (float64 (of_int width) / float64 (of_int height)) - presetRatio))"

text \<open>
  The loop of \<^verbatim>\<open>getClosestRatio\<close> (main.go 517-522), \<^verbatim>\<open>for ratio, p := range ratioToPreset\<close>,
  over the entries \<open>es\<close> in the order in which the runtime yields them: Go leaves the
  iteration order of a map unspecified, so the order is an argument.
\<close>

fun rangeRatio :: "(string \<times> string) list \<Rightarrow> string \<Rightarrow> string" where
  "rangeRatio [] preset = ''1:1''"
| "rangeRatio ((ratio, p) # es) preset = (if p = preset then ratio else rangeRatio es preset)"

text \<open>\<^verbatim>\<open>func getClosestRatio(width, height int) string\<close> (main.go 515-523).\<close>

definition getClosestRatio :: "(string \<times> string) list \<Rightarrow> int \<Rightarrow> int \<Rightarrow> string" where
  "getClosestRatio es width height = rangeRatio es (getClosestPreset width height)"

text \<open>
  The selection as the specification words it, for comparison with the code: the first
  entry of the table, in table order, whose exact reference ratio is at minimal exact
  distance from \<open>width / height\<close>.
\<close>

definition presetRatios_spec :: "(string \<times> rat) list" where
  "presetRatios_spec =
     [(''portrait_16_9'', 9 / 16),
      (''portrait_4_3'', 3 / 4),
      (''square_hd'', 1),
      (''landscape_4_3'', 4 / 3),
      (''landscape_16_9'', 16 / 9)]"

fun firstMin_spec :: "rat \<Rightarrow> (string \<times> rat) list \<Rightarrow> string \<times> rat \<Rightarrow> string \<times> rat" where
  "firstMin_spec x [] best = best"
| "firstMin_spec x ((name, r) # es) (bn, bd) =
     (if \<bar>x - r\<bar> < bd then firstMin_spec x es (name, \<bar>x - r\<bar>)
      else firstMin_spec x es (bn, bd))"

definition dimensionsToPreset_spec :: "int \<Rightarrow> int \<Rightarrow> string" where
  "dimensionsToPreset_spec width height =
     (if width = 0 \<or> height = 0 then ''square_hd''
      else let x = of_int width / of_int height :: rat in
           fst (firstMin_spec x (tl presetRatios_spec)
                  (fst (hd presetRatios_spec), \<bar>x - snd (hd presetRatios_spec)\<bar>)))"

subsection \<open>Model registry\<close>

text \<open>The entries of \<^verbatim>\<open>var models = map[string]struct{...}\<close> (main.go 27-39).\<close>

record ModelInfo =
  GenPath :: string
  EditPath :: string
  SupportsAutoImgSize :: bool
  SizeParamName :: string

definition models :: "(string \<times> ModelInfo) list" where
  "models =
     [(''z-turbo'',
         \<lparr>GenPath = ''fal-ai/z-image/turbo'', EditPath = '''',
          SupportsAutoImgSize = False, SizeParamName = ''image_size''\<rparr>),
      (''qwen'',
         \<lparr>GenPath = ''fal-ai/qwen-image'', EditPath = ''fal-ai/qwen-image-edit-plus'',
          SupportsAutoImgSize = False, SizeParamName = ''image_size''\<rparr>),
      (''flux2-pro'',
         \<lparr>GenPath = ''fal-ai/flux-2-pro'', EditPath = ''fal-ai/flux-2-pro/edit'',
          SupportsAutoImgSize = True, SizeParamName = ''image_size''\<rparr>),
      (''flux2-flex'',
         \<lparr>GenPath = ''fal-ai/flux-2-flex'', EditPath = ''fal-ai/flux-2-flex/edit'',
          SupportsAutoImgSize = True, SizeParamName = ''image_size''\<rparr>),
      (''nano-banana'',
         \<lparr>GenPath = ''fal-ai/nano-banana'', EditPath = ''fal-ai/nano-banana/edit'',
          SupportsAutoImgSize = True, SizeParamName = ''aspect_ratio''\<rparr>),
      (''nano-banana-pro'',
         \<lparr>GenPath = ''fal-ai/nano-banana-pro'', EditPath = ''fal-ai/nano-banana-pro/edit'',
          SupportsAutoImgSize = True, SizeParamName = ''aspect_ratio''\<rparr>)]"

text \<open>\<^verbatim>\<open>var modelAliases = map[string]string{...}\<close> (main.go 42-44).\<close>

definition modelAliases :: "(string \<times> string) list" where
  "modelAliases = [(''flux2'', ''flux2-pro'')]"

text \<open>\<^verbatim>\<open>func resolveModel(name string) string\<close> (main.go 212-217).\<close>

definition resolveModel :: "string \<Rightarrow> string" where
  "resolveModel name = (case map_of modelAliases name of Some alias \<Rightarrow> alias | None \<Rightarrow> name)"

subsection \<open>Requests, responses and their JSON form\<close>

text \<open>
  \<^verbatim>\<open>type ImageRequest struct\<close> (main.go 51-59). \<open>ImageSize\<close> is an \<^verbatim>\<open>interface{}\<close>: \<open>None\<close>
  is the nil interface, \<open>Some s\<close> the interface holding the string \<open>s\<close> (the program
  stores nothing else in it). \<open>Seed\<close> is a \<^verbatim>\<open>*int\<close>: \<open>None\<close> is the nil pointer.
\<close>

record ImageRequest =
  Prompt :: string
  ImageSize :: "string option"
  AspectRatio :: string
  OutputFormat :: string
  ImageURLs :: "string list"
  Seed :: "int option"
  EnableSafetyChecker :: bool

text \<open>\<^verbatim>\<open>type ImageOutput struct\<close> and \<^verbatim>\<open>type ImageResponse struct\<close> (main.go 61-71).\<close>

record ImageOutput =
  URL :: string
  Width :: int
  Height :: int
  ContentType :: string

record ImageResponse =
  Images :: "ImageOutput list"
  ResponseSeed :: int

datatype json =
    JNull
  | JBool bool
  | JNumber int
  | JString string
  | JArray "json list"
  | JObject "(string \<times> json) list"

text \<open>
  \<^verbatim>\<open>json.Marshal(req)\<close> on an \<^verbatim>\<open>ImageRequest\<close>, read off the struct tags: the members of
  the JSON object in field order, a member tagged \<^verbatim>\<open>omitempty\<close> left out when its field
  is the empty string, the empty slice, the nil interface or the nil pointer. For this
  struct type \<^verbatim>\<open>json.Marshal\<close> returns no error. A string member is given by the bytes of
  the Go string: that is the string on the wire when the bytes are valid UTF-8, ASCII in
  particular (\<^verbatim>\<open>json.Marshal\<close> writes U+FFFD for a byte that is not), so the properties
  below speak of the content of a string member for ASCII strings only.
\<close>

definition marshalImageRequest :: "ImageRequest \<Rightarrow> (string \<times> json) list" where
  "marshalImageRequest req =
     [(''prompt'', JString (Prompt req))]
     @ (case ImageSize req of None \<Rightarrow> [] | Some s \<Rightarrow> [(''image_size'', JString s)])
     @ (if AspectRatio req = '''' then [] else [(''aspect_ratio'', JString (AspectRatio req))])
     @ (if OutputFormat req = '''' then [] else [(''output_format'', JString (OutputFormat req))])
     @ (if ImageURLs req = [] then [] else [(''image_urls'', JArray (map JString (ImageURLs req)))])
     @ (case Seed req of None \<Rightarrow> [] | Some n \<Rightarrow> [(''seed'', JNumber n)])
     @ [(''enable_safety_checker'', JBool (EnableSafetyChecker req))]"

text \<open>A string of ASCII bytes only.\<close>

definition isASCII :: "string \<Rightarrow> bool" where
  "isASCII s \<longleftrightarrow> (\<forall>c \<in> set s. (of_char c :: nat) < 0x80)"

text \<open>One element of \<^verbatim>\<open>detailedErr.Detail\<close> (main.go 386-391).\<close>

record ErrorDetail =
  Msg :: string
  Type :: string

subsection \<open>The environment\<close>

text \<open>
  What the program obtains from the operating system, the network and the Go libraries.
  A function that returns \<^verbatim>\<open>(value, error)\<close> in Go returns \<open>Inl\<close> of the error text or
  \<open>Inr\<close> of the value here.
  \<^item> \<open>getAPIKey\<close>: the result of \<^verbatim>\<open>getAPIKey()\<close> (main.go 171-196), \<open>None\<close> when no source
    holds \<^verbatim>\<open>FAL_KEY\<close> and the function exits with status 1;
  \<^item> \<open>mapOrder\<close>: the order in which \<^verbatim>\<open>range ratioToPreset\<close> yields the entries;
  \<^item> \<open>os_Open\<close>, \<open>image_DecodeConfig\<close>, \<open>os_ReadFile\<close>: the calls of these names, a file
    being the bytes it holds;
  \<^item> \<open>client_Do\<close>: \<^verbatim>\<open>client.Do(httpReq)\<close> on the URL, the \<^verbatim>\<open>Authorization\<close> header and the
    body, giving the status code and the result of \<^verbatim>\<open>io.ReadAll(resp.Body)\<close>;
  \<^item> \<open>unmarshalDetailedErr\<close>, \<open>unmarshalSimpleErr\<close>, \<open>unmarshalImageResponse\<close>:
    \<^verbatim>\<open>json.Unmarshal\<close> of a body into \<^verbatim>\<open>detailedErr\<close>, \<^verbatim>\<open>simpleErr\<close> and \<^verbatim>\<open>imgResp\<close>, giving
    the field \<^verbatim>\<open>Detail\<close>, respectively the whole struct, when it returns no error;
  \<^item> \<open>resolveOutPath\<close>: the path computed at main.go 325-333 from the flags
    \<^verbatim>\<open>output\<close> and \<^verbatim>\<open>format\<close> (clock, home directory and \<^verbatim>\<open>os.Stat\<close>);
  \<^item> \<open>downloadImage\<close>: \<^verbatim>\<open>downloadImage(url, outputPath)\<close> (main.go 557-572), \<open>None\<close> when it
    returns no error.
\<close>

record World =
  getAPIKey :: "string option"
  mapOrder :: "(string \<times> string) list"
  os_Open :: "string \<Rightarrow> string + string"
  image_DecodeConfig :: "string \<Rightarrow> string + int \<times> int"
  os_ReadFile :: "string \<Rightarrow> string + string"
  client_Do :: "string \<Rightarrow> string \<Rightarrow> (string \<times> json) list \<Rightarrow> string + int \<times> (string + string)"
  unmarshalDetailedErr :: "string \<Rightarrow> string + ErrorDetail list"
  unmarshalSimpleErr :: "string \<Rightarrow> string + string"
  unmarshalImageResponse :: "string \<Rightarrow> string + ImageResponse"
  resolveOutPath :: "string \<Rightarrow> string \<Rightarrow> string"
  downloadImage :: "string \<Rightarrow> string \<Rightarrow> string option"

text \<open>
  The package-level flag variables \<^verbatim>\<open>model\<close>, \<^verbatim>\<open>size\<close>, \<^verbatim>\<open>format\<close>, \<^verbatim>\<open>output\<close>, \<^verbatim>\<open>seed\<close> and
  \<^verbatim>\<open>inputImages\<close> (main.go 73-80), as cobra leaves them.
\<close>

record Flags =
  model_flag :: string
  size_flag :: string
  format_flag :: string
  output_flag :: string
  seed_flag :: int
  inputImages :: "string list"

subsection \<open>Input images\<close>

text \<open>\<^verbatim>\<open>func getImageDimensions(imagePath string) (int, int, error)\<close> (main.go 431-444).\<close>

definition getImageDimensions :: "World \<Rightarrow> string \<Rightarrow> string + int \<times> int" where
  "getImageDimensions w imagePath =
     (case os_Open w imagePath of
        Inl err \<Rightarrow> Inl err
      | Inr file \<Rightarrow> image_DecodeConfig w file)"

text \<open>
  \<^verbatim>\<open>filepath.Ext\<close> with the separator \<^verbatim>\<open>/\<close>: the suffix from the last dot of the last
  path element, empty when that element has no dot.
\<close>

definition filepath_Ext :: "string \<Rightarrow> string" where
  "filepath_Ext path =
     (let elem = takeWhile (\<lambda>c. c \<noteq> CHR ''/'') (rev path) in
      if CHR ''.'' \<in> set elem
      then CHR ''.'' # rev (takeWhile (\<lambda>c. c \<noteq> CHR ''.'') elem)
      else '''')"

text \<open>
  \<^verbatim>\<open>strings.ToLower\<close> on the bytes of a string. The letters A-Z are lowered; the only
  other characters that Go lowers to an ASCII letter are U+0130 (bytes C4 B0, to
  \<^verbatim>\<open>i\<close>) and U+212A (bytes E2 84 AA, to \<^verbatim>\<open>k\<close>). Every other byte is kept: where Go
  rewrites such a character, its result and this one both hold a byte that is not
  ASCII, so both differ from every extension that \<^verbatim>\<open>imageToDataURI\<close> compares with.
\<close>

fun strings_ToLower :: "string \<Rightarrow> string" where
  "strings_ToLower [] = []"
| "strings_ToLower (c # cs) =
     (if (of_char c :: nat) = 0xC4 \<and> map of_char (take 1 cs) = [0xB0 :: nat]
      then CHR ''i'' # strings_ToLower (drop 1 cs)
      else if (of_char c :: nat) = 0xE2 \<and> map of_char (take 2 cs) = [0x84, 0xAA :: nat]
      then CHR ''k'' # strings_ToLower (drop 2 cs)
      else if of_char CHR ''A'' \<le> (of_char c :: nat) \<and> (of_char c :: nat) \<le> of_char CHR ''Z''
      then char_of (of_char c + (32 :: nat)) # strings_ToLower cs
      else c # strings_ToLower cs)"

text \<open>\<^verbatim>\<open>base64.StdEncoding.EncodeToString\<close>: the alphabet of RFC 4648 with \<^verbatim>\<open>=\<close> padding.\<close>

definition base64Char :: "nat \<Rightarrow> char" where
  "base64Char n =
     ''ABCDEFGHIJKLMNOPQRSTUVWXYZabcdefghijklmnopqrstuvwxyz0123456789+/'' ! n"

fun base64 :: "string \<Rightarrow> string" where
  "base64 [] = []"
| "base64 [a] =
     (let x = (of_char a :: nat) in
      [base64Char (x div 4), base64Char (x mod 4 * 16), CHR ''='', CHR ''=''])"
| "base64 [a, b] =
     (let x = (of_char a :: nat); y = (of_char b :: nat) in
      [base64Char (x div 4), base64Char (x mod 4 * 16 + y div 16),
       base64Char (y mod 16 * 4), CHR ''=''])"
| "base64 (a # b # c # rest) =
     (let x = (of_char a :: nat); y = (of_char b :: nat); z = (of_char c :: nat) in
      [base64Char (x div 4), base64Char (x mod 4 * 16 + y div 16),
       base64Char (y mod 16 * 4 + z div 64), base64Char (z mod 64)] @ base64 rest)"

text \<open>The \<^verbatim>\<open>switch ext\<close> of \<^verbatim>\<open>imageToDataURI\<close> (main.go 539-551).\<close>

definition mimeType :: "string \<Rightarrow> string" where
  "mimeType ext =
     (if ext = ''.png'' then ''image/png''
      else if ext = ''.jpg'' \<or> ext = ''.jpeg'' then ''image/jpeg''
      else if ext = ''.webp'' then ''image/webp''
      else if ext = ''.gif'' then ''image/gif''
      else ''application/octet-stream'')"

text \<open>\<^verbatim>\<open>func imageToDataURI(imagePath string) (string, error)\<close> (main.go 532-555).\<close>

definition imageToDataURI :: "World \<Rightarrow> string \<Rightarrow> string + string" where
  "imageToDataURI w imagePath =
     (case os_ReadFile w imagePath of
        Inl err \<Rightarrow> Inl err
      | Inr data \<Rightarrow>
          (let ext = strings_ToLower (filepath_Ext imagePath);
               encoded = base64 data
           in Inr (''data:'' @ mimeType ext @ '';base64,'' @ encoded)))"

subsection \<open>Errors, outcomes and network events\<close>

text \<open>
  The errors that \<^verbatim>\<open>callFALAPI\<close> returns (main.go 349-413), with the values that their
  messages print: \<^verbatim>\<open>failed to create request\<close>, \<^verbatim>\<open>API request failed\<close>, \<^verbatim>\<open>failed to read response\<close>,
  \<^verbatim>\<open>API error (status): message\<close> and \<^verbatim>\<open>failed to parse response\<close>.
\<close>

datatype api_error =
    CreateRequestFailed
  | RequestFailed string
  | ReadResponseFailed string
  | APIError int string
  | ParseResponseFailed string

text \<open>
  The fatal errors of an invocation: each prints to the error stream and exits with
  status 1. \<open>ImageReadError n path err\<close> is
  \<^verbatim>\<open>Error reading image n (path): err\<close> (main.go 298).
\<close>

datatype error =
    FalKeyNotFound
  | UnknownModel string
  | NoEditSupport string
  | ImageReadError nat string string
  | CallFailed api_error
  | NoImagesReturned
  | SaveImageFailed string

datatype outcome =
    HelpShown
  | ImageSaved string ImageResponse

text \<open>
  The network calls of a run, in order: the POST of \<^verbatim>\<open>callFALAPI\<close> with its URL,
  \<^verbatim>\<open>Authorization\<close> header and JSON body, and the GET of \<^verbatim>\<open>downloadImage\<close> with its URL
  and output path.
\<close>

datatype event =
    HttpPost string string "(string \<times> json) list"
  | HttpGet string string

subsection \<open>Request builder\<close>

text \<open>
  The size directive \<^verbatim>\<open>sizeValue\<close> (main.go 250-266), from the flags, the local
  \<^verbatim>\<open>isEditMode\<close> and the model's entry.
\<close>

definition sizeValue :: "World \<Rightarrow> Flags \<Rightarrow> bool \<Rightarrow> ModelInfo \<Rightarrow> string" where
  "sizeValue w fl isEditMode info =
     (if size_flag fl \<noteq> '''' \<and> size_flag fl \<noteq> ''auto'' then size_flag fl
      else if isEditMode \<and> SupportsAutoImgSize info then ''auto''
      else if isEditMode \<and> length (inputImages fl) > 0 then
        (case getImageDimensions w (inputImages fl ! 0) of
           Inr (width, height) \<Rightarrow> getClosestRatio (mapOrder w) width height
         | Inl err \<Rightarrow> '''')
      else if \<not> isEditMode then ''4:3''
      else '''')"

text \<open>
  The request as built at main.go 268-290: prompt and format, then the size field of
  the model's family, then the seed. The other fields keep their zero values.
\<close>

definition buildRequest :: "string \<Rightarrow> Flags \<Rightarrow> ModelInfo \<Rightarrow> string \<Rightarrow> ImageRequest" where
  "buildRequest prompt fl info sv =
     (let req = \<lparr>Prompt = prompt, ImageSize = None, AspectRatio = '''',
                 OutputFormat = format_flag fl, ImageURLs = [], Seed = None,
                 EnableSafetyChecker = False\<rparr>;
          req = (if SizeParamName info = ''aspect_ratio'' then
                   (if sv \<noteq> '''' then req\<lparr>AspectRatio := sv\<rparr> else req)
                 else
                   (if sv \<noteq> '''' \<and> sv \<noteq> ''auto'' then req\<lparr>ImageSize := Some (parseSize sv)\<rparr>
                    else if sv = ''auto'' then req\<lparr>ImageSize := Some ''auto''\<rparr>
                    else req))
      in if seed_flag fl \<ge> 0 then req\<lparr>Seed := Some (seed_flag fl)\<rparr> else req)"

text \<open>
  The loop over \<^verbatim>\<open>inputImages\<close> (main.go 295-302), from index \<open>i\<close>: the data URIs in
  order, or the error of the first image that cannot be read.
\<close>

fun imageURLs :: "World \<Rightarrow> nat \<Rightarrow> string list \<Rightarrow> error + string list" where
  "imageURLs w i [] = Inr []"
| "imageURLs w i (imgPath # rest) =
     (case imageToDataURI w imgPath of
        Inl err \<Rightarrow> Inl (ImageReadError (i + 1) imgPath err)
      | Inr dataURI \<Rightarrow>
          (case imageURLs w (i + 1) rest of
             Inl e \<Rightarrow> Inl e
           | Inr uris \<Rightarrow> Inr (dataURI # uris)))"

subsection \<open>API client\<close>

definition falBaseURL :: string where
  "falBaseURL = ''https://fal.run''"

text \<open>
  \<^verbatim>\<open>http.NewRequest("POST", url, body)\<close> on a URL that starts with \<^verbatim>\<open>https://fal.run/\<close>: it
  fails exactly when \<^verbatim>\<open>url.Parse\<close> fails, that is when the part before the first \<^verbatim>\<open>#\<close>
  holds an ASCII control byte, or when the path (up to the first \<^verbatim>\<open>?\<close>) or the fragment
  holds a \<^verbatim>\<open>%\<close> that is not followed by two hexadecimal digits.
\<close>

definition ishex :: "char \<Rightarrow> bool" where
  "ishex c \<longleftrightarrow> c \<in> set ''0123456789abcdefABCDEF''"

fun invalidEscape :: "string \<Rightarrow> bool" where
  "invalidEscape [] = False"
| "invalidEscape (c # cs) =
     (if c = CHR ''%''
      then \<not> (2 \<le> length cs \<and> ishex (cs ! 0) \<and> ishex (cs ! 1)) \<or> invalidEscape (drop 2 cs)
      else invalidEscape cs)"

definition newRequestFails :: "string \<Rightarrow> bool" where
  "newRequestFails url =
     (let u = takeWhile (\<lambda>c. c \<noteq> CHR ''#'') url;
          frag = drop 1 (dropWhile (\<lambda>c. c \<noteq> CHR ''#'') url);
          path = takeWhile (\<lambda>c. c \<noteq> CHR ''?'') u
      in (\<exists>c \<in> set u. (of_char c :: nat) < 0x20 \<or> (of_char c :: nat) = 0x7F)
         \<or> invalidEscape path \<or> invalidEscape frag)"

text \<open>
  The message of an API error (main.go 385-404): the three shapes tried in order on
  the body of a response whose status is not 200.
\<close>

definition errorMessage :: "World \<Rightarrow> string \<Rightarrow> string" where
  "errorMessage w body =
     (case unmarshalDetailedErr w body of
        Inr (d # ds) \<Rightarrow> Msg d
      | _ \<Rightarrow>
          (case unmarshalSimpleErr w body of
             Inr detail \<Rightarrow> if detail \<noteq> '''' then detail else body
           | Inl err \<Rightarrow> body))"

text \<open>
  The message as the specification words it, for comparison with the code: the first
  shape that matches, where a flat object with a string \<^verbatim>\<open>detail\<close> matches whatever the
  string is.
\<close>

definition errorMessage_spec :: "World \<Rightarrow> string \<Rightarrow> string" where
  "errorMessage_spec w body =
     (case unmarshalDetailedErr w body of
        Inr (d # ds) \<Rightarrow> Msg d
      | _ \<Rightarrow>
          (case unmarshalSimpleErr w body of
             Inr detail \<Rightarrow> detail
           | Inl err \<Rightarrow> body))"

text \<open>
  \<^verbatim>\<open>func callFALAPI(apiKey, modelPath string, req ImageRequest) (*ImageResponse, error)\<close>
  (main.go 349-413), with the network call it makes, none when \<^verbatim>\<open>http.NewRequest\<close>
  fails. \<^verbatim>\<open>json.Marshal\<close> returns no error on an \<^verbatim>\<open>ImageRequest\<close>; the progress display is
  output only.
\<close>

definition callFALAPI ::
    "World \<Rightarrow> string \<Rightarrow> string \<Rightarrow> ImageRequest \<Rightarrow> event list \<times> (api_error + ImageResponse)" where
  "callFALAPI w apiKey modelPath req =
     (let url = falBaseURL @ ''/'' @ modelPath;
          jsonData = marshalImageRequest req;
          auth = ''Key '' @ apiKey;
          sent = [HttpPost url auth jsonData]
      in if newRequestFails url then ([], Inl CreateRequestFailed)
         else
         case client_Do w url auth jsonData of
           Inl err \<Rightarrow> (sent, Inl (RequestFailed err))
         | Inr (statusCode, readAll) \<Rightarrow>
             (case readAll of
                Inl err \<Rightarrow> (sent, Inl (ReadResponseFailed err))
              | Inr body \<Rightarrow>
                  if statusCode \<noteq> 200
                  then (sent, Inl (APIError statusCode (errorMessage w body)))
                  else (case unmarshalImageResponse w body of
                          Inl err \<Rightarrow> (sent, Inl (ParseResponseFailed err))
                        | Inr imgResp \<Rightarrow> (sent, Inr imgResp))))"

subsection \<open>The command\<close>

text \<open>
  \<^verbatim>\<open>func runGenerate(cmd *cobra.Command, args []string)\<close> (main.go 219-347): the network
  calls made and how the run ends, \<open>Inl\<close> of the fatal error (exit status 1) or \<open>Inr\<close> of
  the outcome.
\<close>

definition runGenerate :: "World \<Rightarrow> Flags \<Rightarrow> string list \<Rightarrow> event list \<times> (error + outcome)" where
  "runGenerate w fl args =
     (if length args = 0 then ([], Inr HelpShown)
      else
        let prompt = args ! 0 in
        case getAPIKey w of
          None \<Rightarrow> ([], Inl FalKeyNotFound)
        | Some apiKey \<Rightarrow>
        let resolvedModel = resolveModel (model_flag fl) in
        case map_of models resolvedModel of
          None \<Rightarrow> ([], Inl (UnknownModel (model_flag fl)))
        | Some info \<Rightarrow>
        let isEditMode = length (inputImages fl) > 0 in
        if isEditMode \<and> EditPath info = '''' then ([], Inl (NoEditSupport (model_flag fl)))
        else
        let modelPath = (if isEditMode then EditPath info else GenPath info);
            sv = sizeValue w fl isEditMode info;
            req = buildRequest prompt fl info sv
        in
        case (if isEditMode
              then (case imageURLs w 0 (inputImages fl) of
                      Inl e \<Rightarrow> Inl e
                    | Inr uris \<Rightarrow> Inr (req\<lparr>ImageURLs := uris\<rparr>))
              else Inr req) of
          Inl e \<Rightarrow> ([], Inl e)
        | Inr req \<Rightarrow>
        case callFALAPI w apiKey modelPath req of
          (sent, Inl err) \<Rightarrow> (sent, Inl (CallFailed err))
        | (sent, Inr response) \<Rightarrow>
        if length (Images response) = 0 then (sent, Inl NoImagesReturned)
        else
        let outPath = resolveOutPath w (output_flag fl) (format_flag fl);
            url = URL (Images response ! 0);
            sent = sent @ [HttpGet url outPath]
        in
        case downloadImage w url outPath of
          Some err \<Rightarrow> (sent, Inl (SaveImageFailed err))
        | None \<Rightarrow> (sent, Inr (ImageSaved outPath response)))"

subsection \<open>An example environment\<close>

text \<open>
  A key is set, \<^verbatim>\<open>photo.png\<close> is a 1920 by 1080 image, \<^verbatim>\<open>broken.png\<close> is a readable file
  that is no image, and no other file exists. The service answers by endpoint: an
  image for \<^verbatim>\<open>z-turbo\<close> and for the edit endpoint of \<^verbatim>\<open>qwen\<close>, an empty image list for
  \<^verbatim>\<open>qwen\<close>, a validation error list for \<^verbatim>\<open>flux2-pro\<close>, a flat error for \<^verbatim>\<open>flux2-flex\<close>,
  status 201 with an empty image list for \<^verbatim>\<open>nano-banana\<close>, and a plain-text
  status 500 otherwise. The three decoders return what \<^verbatim>\<open>json.Unmarshal\<close> returns on
  these bodies and on \<^verbatim>\<open>{"detail":""}\<close>.
\<close>

definition exampleWorld :: World where
  \<open>exampleWorld =
     \<lparr>getAPIKey = Some ''secret'',
      mapOrder = rev ratioToPreset,
      os_Open = (\<lambda>p. if p = ''photo.png'' then Inr ''pixels''
                      else if p = ''broken.png'' then Inr ''junk''
                      else Inl ''no such file or directory''),
      image_DecodeConfig = (\<lambda>f. if f = ''pixels'' then Inr (1920, 1080)
                      else Inl ''image: unknown format''),
      os_ReadFile = (\<lambda>p. if p = ''photo.png'' then Inr ''pixels''
                      else if p = ''broken.png'' then Inr ''junk''
                      else Inl ''no such file or directory''),
      client_Do = (\<lambda>url auth body.
         if url = ''https://fal.run/fal-ai/z-image/turbo''
            \<or> url = ''https://fal.run/fal-ai/qwen-image-edit-plus''
         then Inr (200, Inr ''{"images":[{"url":"https://cdn/x.png"}],"seed":7}'')
         else if url = ''https://fal.run/fal-ai/qwen-image''
         then Inr (200, Inr ''{"images":[]}'')
         else if url = ''https://fal.run/fal-ai/flux-2-pro''
         then Inr (422, Inr ''{"detail":[{"msg":"bad prompt"}]}'')
         else if url = ''https://fal.run/fal-ai/flux-2-flex''
         then Inr (400, Inr ''{"detail":"bad prompt"}'')
         else if url = ''https://fal.run/fal-ai/nano-banana''
         then Inr (201, Inr ''{"images":[]}'')
         else Inr (500, Inr ''Internal Server Error'')),
      unmarshalDetailedErr = (\<lambda>b.
         if b = ''{"detail":[{"msg":"bad prompt"}]}''
         then Inr [\<lparr>Msg = ''bad prompt'', Type = ''''\<rparr>]
         else if b = ''{"detail":"bad prompt"}'' \<or> b = ''{"detail":""}''
         then Inl ''json: cannot unmarshal string into Go struct field .detail''
         else if b = ''{"images":[]}''
            \<or> b = ''{"images":[{"url":"https://cdn/x.png"}],"seed":7}''
         then Inr []
         else Inl ''invalid character''),
      unmarshalSimpleErr = (\<lambda>b.
         if b = ''{"detail":"bad prompt"}'' then Inr ''bad prompt''
         else if b = ''{"detail":[{"msg":"bad prompt"}]}''
         then Inl ''json: cannot unmarshal array into Go struct field .detail''
         else if b = ''{"images":[]}'' \<or> b = ''{"detail":""}''
            \<or> b = ''{"images":[{"url":"https://cdn/x.png"}],"seed":7}''
         then Inr ''''
         else Inl ''invalid character''),
      unmarshalImageResponse = (\<lambda>b.
         if b = ''{"images":[{"url":"https://cdn/x.png"}],"seed":7}''
         then Inr \<lparr>Images = [\<lparr>URL = ''https://cdn/x.png'', Width = 0, Height = 0,
                                ContentType = ''''\<rparr>],
                    ResponseSeed = 7\<rparr>
         else if b = ''{"images":[]}''
            \<or> b = ''{"detail":[{"msg":"bad prompt"}]}''
            \<or> b = ''{"detail":"bad prompt"}'' \<or> b = ''{"detail":""}''
         then Inr \<lparr>Images = [], ResponseSeed = 0\<rparr>
         else Inl ''invalid character''),
      resolveOutPath = (\<lambda>out fmt. if out = '''' then ''generated_0.'' @ fmt else out),
      downloadImage = (\<lambda>url path. None)\<rparr>\<close>

text \<open>The defaults of the flags (main.go 115-120).\<close>

definition defaultFlags :: Flags where
  "defaultFlags =
     \<lparr>model_flag = ''z-turbo'', size_flag = '''', format_flag = ''png'',
      output_flag = '''', seed_flag = - 1, inputImages = []\<rparr>"

text \<open>The entries of \<^verbatim>\<open>qwen\<close> and \<^verbatim>\<open>nano-banana-pro\<close> in \<^verbatim>\<open>models\<close>.\<close>

definition qwenInfo :: ModelInfo where
  "qwenInfo =
     \<lparr>GenPath = ''fal-ai/qwen-image'', EditPath = ''fal-ai/qwen-image-edit-plus'',
      SupportsAutoImgSize = False, SizeParamName = ''image_size''\<rparr>"

definition nanoBananaProInfo :: ModelInfo where
  "nanoBananaProInfo =
     \<lparr>GenPath = ''fal-ai/nano-banana-pro'', EditPath = ''fal-ai/nano-banana-pro/edit'',
      SupportsAutoImgSize = True, SizeParamName = ''aspect_ratio''\<rparr>"

text \<open>\<^verbatim>\<open>gen "add sunglasses" -m qwen -i broken.png\<close>\<close>

definition editBrokenFlags :: Flags where
  "editBrokenFlags = defaultFlags\<lparr>model_flag := ''qwen'', inputImages := [''broken.png'']\<rparr>"

text \<open>\<^verbatim>\<open>gen "add sunglasses" -m qwen -i photo.png\<close>\<close>

definition editPhotoFlags :: Flags where
  "editPhotoFlags = defaultFlags\<lparr>model_flag := ''qwen'', inputImages := [''photo.png'']\<rparr>"

text \<open>\<^verbatim>\<open>gen "add sunglasses" -m qwen -i photo.png -i missing.jpg\<close>\<close>

definition editMissingFlags :: Flags where
  "editMissingFlags =
     defaultFlags\<lparr>model_flag := ''qwen'', inputImages := [''photo.png'', ''missing.jpg'']\<rparr>"

section \<open>Properties\<close>

subsection \<open>Rounding\<close>

text \<open>
  \<open>float64\<close> on familiar values: integers and dyadic fractions are exact, 0.1 is
  \<^verbatim>\<open>0x3FB999999999999A\<close>, 1/3 is \<^verbatim>\<open>0x3FD5555555555555\<close>, 4/3 is \<^verbatim>\<open>0x3FF5555555555555\<close> and
  16/9 is \<^verbatim>\<open>0x3FFC71C71C71C71C\<close>; above \<open>2^53\<close> an odd integer goes to the even neighbour.
\<close>

lemma float64_values:
  "float64 1920 = 1920"
  "float64 (9 / 16) = 9 / 16"
  "float64 (1 / 10) = 0x1999999999999A / 2 ^ 56"
  "float64 (1 / 3) = 0x15555555555555 / 2 ^ 54"
  "float64 (4 / 3) = 0x15555555555555 / 2 ^ 52"
  "float64 (16 / 9) = 0x1C71C71C71C71C / 2 ^ 52"
  "float64 (2 ^ 53 + 1) = 2 ^ 53"
  "float64 (2 ^ 53 + 3) = 2 ^ 53 + 4"
  "float64 (- (1 / 3)) = - (0x15555555555555 / 2 ^ 54)"
  by code_simp+

subsection \<open>Ratio/preset resolver\<close>

lemma rangeRatio_unique:
  "distinct (map snd es) \<Longrightarrow> (r, p) \<in> set es \<Longrightarrow> rangeRatio es p = r"
  by (induction es) (auto simp: rev_image_eqI)

lemma parseSize_entry:
  "r \<in> set [''9:16'', ''3:4'', ''1:1'', ''4:3'', ''16:9''] \<Longrightarrow> (r, parseSize r) \<in> set ratioToPreset"
  by (auto simp: parseSize_def ratioToPreset_def)

text \<open>
  Claim C5. For each of the five mapped ratio strings \<^verbatim>\<open>9:16\<close>, \<^verbatim>\<open>3:4\<close>, \<^verbatim>\<open>1:1\<close>, \<^verbatim>\<open>4:3\<close>
  and \<^verbatim>\<open>16:9\<close>, \<^verbatim>\<open>parseSize\<close> followed by the reverse lookup of \<^verbatim>\<open>getClosestRatio\<close> in
  the same table gives the ratio string back, in whatever order the runtime iterates
  over the table.
\<close>

theorem ratio_preset_roundtrip:
  assumes "mset es = mset ratioToPreset"
    and "r \<in> set [''9:16'', ''3:4'', ''1:1'', ''4:3'', ''16:9'']"
  shows "rangeRatio es (parseSize r) = r"
proof -
  have "distinct (map snd ratioToPreset)"
    by (simp add: ratioToPreset_def)
  moreover have "mset (map snd es) = mset (map snd ratioToPreset)"
    using assms(1) by (metis mset_map)
  ultimately have d: "distinct (map snd es)"
    by (metis mset_eq_imp_distinct_iff)
  have "(r, parseSize r) \<in> set es"
    using parseSize_entry [OF assms(2)] assms(1) by (metis mset_eq_setD)
  with d show ?thesis by (rule rangeRatio_unique)
qed

theorem ratio_preset_roundtrip_witness:
  "mset (rev ratioToPreset) = mset ratioToPreset
   \<and> ''16:9'' \<in> set [''9:16'', ''3:4'', ''1:1'', ''4:3'', ''16:9'']
   \<and> rangeRatio (rev ratioToPreset) (parseSize ''16:9'') = ''16:9''"
  using ratio_preset_roundtrip [of "rev ratioToPreset" "''16:9''"] by simp

text \<open>
  The loop of \<^verbatim>\<open>getClosestPreset\<close> from \<open>(n0, d0)\<close>: either no entry is nearer than
  \<open>d0\<close> and the pair is unchanged, or the result is the first entry at minimal distance.
\<close>

lemma closestStep_fold:
  "foldl (closestStep x) (n0, d0) es = (n, d) \<Longrightarrow>
     (n = n0 \<and> d = d0 \<and> (\<forall>e \<in> set es. d0 \<le> abs_go (float64 (x - snd e))))
     \<or> (\<exists>ys r zs. es = ys @ (n, r) # zs \<and> d = abs_go (float64 (x - r)) \<and> d < d0
           \<and> (\<forall>e \<in> set ys. d < abs_go (float64 (x - snd e)))
           \<and> (\<forall>e \<in> set zs. d \<le> abs_go (float64 (x - snd e))))"
proof (induction es arbitrary: n d rule: rev_induct)
  case Nil
  then show ?case by simp
next
  case (snoc e es)
  obtain m r where e: "e = (m, r)" by (cases e)
  obtain n1 d1 where f: "foldl (closestStep x) (n0, d0) es = (n1, d1)"
    by (cases "foldl (closestStep x) (n0, d0) es")
  let ?dx = "abs_go (float64 (x - r))"
  note ih = snoc.IH [OF f]
  show ?case
  proof (cases "?dx < d1")
    case True
    with snoc.prems e f have nd: "n = m" "d = ?dx" by (simp_all add: Let_def)
    have lt: "d < d0" using ih True nd by auto
    have all: "\<forall>e' \<in> set es. d < abs_go (float64 (x - snd e'))"
      using ih True nd by fastforce
    have "es @ [e] = es @ (n, r) # []" using nd e by simp
    moreover have "\<forall>e' \<in> set []. d \<le> abs_go (float64 (x - snd (e' :: string \<times> rat)))" by simp
    ultimately show ?thesis using lt nd all by blast
  next
    case False
    with snoc.prems e f have nd: "n = n1" "d = d1" by (simp_all add: Let_def)
    from ih show ?thesis
    proof
      assume "n1 = n0 \<and> d1 = d0 \<and> (\<forall>e \<in> set es. d0 \<le> abs_go (float64 (x - snd e)))"
      with False nd e show ?thesis by auto
    next
      assume "\<exists>ys r zs. es = ys @ (n1, r) # zs \<and> d1 = abs_go (float64 (x - r)) \<and> d1 < d0
           \<and> (\<forall>e \<in> set ys. d1 < abs_go (float64 (x - snd e)))
           \<and> (\<forall>e \<in> set zs. d1 \<le> abs_go (float64 (x - snd e)))"
      then obtain ys r' zs where h: "es = ys @ (n1, r') # zs" "d1 = abs_go (float64 (x - r'))" "d1 < d0"
          "\<forall>e \<in> set ys. d1 < abs_go (float64 (x - snd e))"
          "\<forall>e \<in> set zs. d1 \<le> abs_go (float64 (x - snd e))" by blast
      have "es @ [e] = ys @ (n, r') # (zs @ [e])" using h nd by simp
      moreover have "\<forall>e' \<in> set (zs @ [e]). d \<le> abs_go (float64 (x - snd e'))"
        using h False nd e by auto
      ultimately show ?thesis using h nd by blast
    qed
  qed
qed

text \<open>
  Claim C3, as the code has it. \<^verbatim>\<open>getClosestPreset\<close> returns \<^verbatim>\<open>square_hd\<close> when the width
  or the height is 0. Otherwise, when some entry of the table lies at a distance below
  the initial bound 999, it returns the first entry, in the table's ascending order,
  whose distance is minimal, the distance being the \<^verbatim>\<open>float64\<close> value that the code
  computes, with the quotient, the reference ratio and the difference each rounded.
  \<^verbatim>\<open>(1000,1000)\<close> gives \<^verbatim>\<open>square_hd\<close>, \<^verbatim>\<open>(1920,1080)\<close> gives \<^verbatim>\<open>landscape_16_9\<close> and
  \<^verbatim>\<open>(1080,1920)\<close> gives \<^verbatim>\<open>portrait_16_9\<close>.
\<close>

theorem getClosestPreset_first_minimum:
  "(width = 0 \<or> height = 0 \<longrightarrow> getClosestPreset width height = ''square_hd'')
   \<and> (width \<noteq> 0 \<and> height \<noteq> 0
        \<and> (\<exists>e \<in> set aspectPresets. presetDiff width height (snd e) < 999) \<longrightarrow>
       (\<exists>ys r zs. aspectPresets = ys @ (getClosestPreset width height, r) # zs
          \<and> (\<forall>e \<in> set ys. presetDiff width height r < presetDiff width height (snd e))
          \<and> (\<forall>e \<in> set zs. presetDiff width height r \<le> presetDiff width height (snd e))))
   \<and> sorted_wrt (<) (map snd aspectPresets)
   \<and> getClosestPreset 1000 1000 = ''square_hd''
   \<and> getClosestPreset 1920 1080 = ''landscape_16_9''
   \<and> getClosestPreset 1080 1920 = ''portrait_16_9''"
proof (intro conjI impI)
  assume "width = 0 \<or> height = 0"
  then show "getClosestPreset width height = ''square_hd''"
    by (auto simp: getClosestPreset_def)
next
  assume a: "width \<noteq> 0 \<and> height \<noteq> 0
        \<and> (\<exists>e \<in> set aspectPresets. presetDiff width height (snd e) < 999)"
  define x where "x = float64 (float64 (of_int width) / float64 (of_int height))"
  obtain n d where f: "foldl (closestStep x) (''square_hd'', 999) aspectPresets = (n, d)"
    by (cases "foldl (closestStep x) (''square_hd'', 999) aspectPresets")
  have g: "getClosestPreset width height = n"
    using a f by (simp add: getClosestPreset_def x_def Let_def)
  have pd: "presetDiff width height r = abs_go (float64 (x - r))" for r
    by (simp add: presetDiff_def x_def)
  from closestStep_fold [OF f] a
  have "\<exists>ys r zs. aspectPresets = ys @ (n, r) # zs \<and> d = abs_go (float64 (x - r)) \<and> d < 999
           \<and> (\<forall>e \<in> set ys. d < abs_go (float64 (x - snd e)))
           \<and> (\<forall>e \<in> set zs. d \<le> abs_go (float64 (x - snd e)))"
    unfolding pd by fastforce
  then show "\<exists>ys r zs. aspectPresets = ys @ (getClosestPreset width height, r) # zs
          \<and> (\<forall>e \<in> set ys. presetDiff width height r < presetDiff width height (snd e))
          \<and> (\<forall>e \<in> set zs. presetDiff width height r \<le> presetDiff width height (snd e))"
    unfolding pd g by blast
next
  show "sorted_wrt (<) (map snd aspectPresets)" by code_simp
next
  show "getClosestPreset 1000 1000 = ''square_hd''" by code_simp
next
  show "getClosestPreset 1920 1080 = ''landscape_16_9''" by code_simp
next
  show "getClosestPreset 1080 1920 = ''portrait_16_9''" by code_simp
qed

theorem getClosestPreset_first_minimum_witness:
  "(1920 :: int) \<noteq> 0 \<and> (1080 :: int) \<noteq> 0
   \<and> (\<exists>e \<in> set aspectPresets. presetDiff 1920 1080 (snd e) < 999)
   \<and> (\<exists>ys r zs. aspectPresets = ys @ (getClosestPreset 1920 1080, r) # zs
          \<and> (\<forall>e \<in> set ys. presetDiff 1920 1080 r < presetDiff 1920 1080 (snd e))
          \<and> (\<forall>e \<in> set zs. presetDiff 1920 1080 r \<le> presetDiff 1920 1080 (snd e)))
   \<and> ((0 :: int) = 0 \<or> (1080 :: int) = 0) \<and> getClosestPreset 0 1080 = ''square_hd''"
proof -
  have z: "(0 :: int) = 0 \<or> (1080 :: int) = 0" by simp
  with getClosestPreset_first_minimum [of 0 1080]
  have d: "getClosestPreset 0 1080 = ''square_hd''" by meson
  have h: "\<exists>e \<in> set aspectPresets. presetDiff 1920 1080 (snd e) < 999"
    by code_simp
  moreover have "(1920 :: int) \<noteq> 0 \<and> (1080 :: int) \<noteq> 0" by simp
  ultimately have "\<exists>ys r zs. aspectPresets = ys @ (getClosestPreset 1920 1080, r) # zs
          \<and> (\<forall>e \<in> set ys. presetDiff 1920 1080 r < presetDiff 1920 1080 (snd e))
          \<and> (\<forall>e \<in> set zs. presetDiff 1920 1080 r \<le> presetDiff 1920 1080 (snd e))"
    using getClosestPreset_first_minimum [of 1920 1080] by blast
  with h z d show ?thesis by simp
qed

text \<open>
  The claim as it is worded, with exact distances, fails on a 7 by 6 image. The exact
  ratio 7/6 is equally far from 1 and from 4/3, so the first of the two, \<^verbatim>\<open>square_hd\<close>,
  would win. In \<^verbatim>\<open>float64\<close> the quotient is rounded up and 4/3 is rounded down: the
  distance to \<^verbatim>\<open>square_hd\<close> is 0.16666666666666674 and the distance to
  \<^verbatim>\<open>landscape_4_3\<close> is 0.16666666666666652, so the code returns \<^verbatim>\<open>landscape_4_3\<close>.
\<close>

theorem getClosestPreset_exact_tie_counterexample:
  "getClosestPreset 7 6 = ''landscape_4_3'' \<and> dimensionsToPreset_spec 7 6 = ''square_hd''"
  by code_simp

lemma presetDiff_7_6:
  "presetDiff 7 6 (float64 1) = 750599937895083 / 4503599627370496"
  "presetDiff 7 6 (float64 (4 / 3)) = 750599937895082 / 4503599627370496"
  by code_simp+

text \<open>
  The initial \<^verbatim>\<open>closestDiff := 999.0\<close> is a bound, not an infinity: on a 2000 by 1 image
  every distance exceeds it, no entry is selected and the initial \<^verbatim>\<open>square_hd\<close> is
  returned, although \<^verbatim>\<open>landscape_16_9\<close> is the nearest entry.
\<close>

lemma getClosestPreset_beyond_bound:
  "getClosestPreset 2000 1 = ''square_hd'' \<and> dimensionsToPreset_spec 2000 1 = ''landscape_16_9''"
  by code_simp

subsection \<open>The request on the wire\<close>

lemma marshal_seed:
  "map_of (marshalImageRequest req) ''seed'' = map_option JNumber (Seed req)"
  by (simp add: marshalImageRequest_def split: option.splits)

lemma marshal_image_size:
  "map_of (marshalImageRequest req) ''image_size'' = map_option JString (ImageSize req)"
  by (simp add: marshalImageRequest_def split: option.splits)

lemma marshal_aspect_ratio:
  "map_of (marshalImageRequest req) ''aspect_ratio'' =
     (if AspectRatio req = '''' then None else Some (JString (AspectRatio req)))"
  by (simp add: marshalImageRequest_def split: option.splits)

lemma marshal_distinct: "distinct (map fst (marshalImageRequest req))"
  by (simp add: marshalImageRequest_def split: option.splits)

text \<open>\<^verbatim>\<open>http.NewRequest\<close> succeeds on the endpoints of every entry of \<^verbatim>\<open>models\<close>.\<close>

lemma models_urls_ok:
  assumes "map_of models k = Some info"
  shows "\<not> newRequestFails (falBaseURL @ ''/'' @ GenPath info)"
    and "\<not> newRequestFails (falBaseURL @ ''/'' @ EditPath info)"
proof -
  have "\<forall>e \<in> set models.
          \<not> newRequestFails (falBaseURL @ ''/'' @ GenPath (snd e))
          \<and> \<not> newRequestFails (falBaseURL @ ''/'' @ EditPath (snd e))"
    by code_simp
  moreover from assms have "(k, info) \<in> set models"
    by (rule map_of_SomeD)
  ultimately show "\<not> newRequestFails (falBaseURL @ ''/'' @ GenPath info)"
    and "\<not> newRequestFails (falBaseURL @ ''/'' @ EditPath info)"
    by force+
qed

lemma callFALAPI_sent:
  "\<not> newRequestFails (falBaseURL @ ''/'' @ modelPath) \<Longrightarrow>
   fst (callFALAPI w apiKey modelPath req) =
     [HttpPost (falBaseURL @ ''/'' @ modelPath) (''Key '' @ apiKey) (marshalImageRequest req)]"
  by (simp add: callFALAPI_def Let_def split: sum.splits prod.splits)

lemma buildRequest_no_urls:
  "ImageURLs (buildRequest p fl info sv) = []"
  "(buildRequest p fl info sv)\<lparr>ImageURLs := []\<rparr> = buildRequest p fl info sv"
  by (simp_all add: buildRequest_def Let_def)

text \<open>The request of a run, when the run gets as far as sending one.\<close>

lemma runGenerate_post:
  assumes "HttpPost url auth body \<in> set (fst (runGenerate w fl args))"
  shows "\<exists>apiKey info uris.
           args \<noteq> [] \<and> getAPIKey w = Some apiKey
           \<and> map_of models (resolveModel (model_flag fl)) = Some info
           \<and> (inputImages fl \<noteq> [] \<longrightarrow> EditPath info \<noteq> '''' \<and> imageURLs w 0 (inputImages fl) = Inr uris)
           \<and> (inputImages fl = [] \<longrightarrow> uris = [])
           \<and> url = falBaseURL @ ''/'' @ (if inputImages fl \<noteq> [] then EditPath info else GenPath info)
           \<and> auth = ''Key '' @ apiKey
           \<and> body = marshalImageRequest
                 ((buildRequest (args ! 0) fl info (sizeValue w fl (inputImages fl \<noteq> []) info))
                    \<lparr>ImageURLs := uris\<rparr>)"
  using assms
  by (auto simp: runGenerate_def Let_def callFALAPI_def buildRequest_no_urls
      split: if_splits option.splits sum.splits prod.splits)

text \<open>
  A run that has a prompt, a key, a model that serves the mode and readable input
  images sends its request first.
\<close>

lemma runGenerate_sends:
  assumes "args \<noteq> []" and "getAPIKey w = Some apiKey"
    and "map_of models (resolveModel (model_flag fl)) = Some info"
    and "inputImages fl \<noteq> [] \<longrightarrow> EditPath info \<noteq> '''' \<and> imageURLs w 0 (inputImages fl) = Inr uris"
    and "inputImages fl = [] \<longrightarrow> uris = []"
  shows "\<exists>rest. fst (runGenerate w fl args) =
           HttpPost (falBaseURL @ ''/'' @ (if inputImages fl \<noteq> [] then EditPath info else GenPath info))
             (''Key '' @ apiKey)
             (marshalImageRequest
                ((buildRequest (args ! 0) fl info (sizeValue w fl (inputImages fl \<noteq> []) info))
                   \<lparr>ImageURLs := uris\<rparr>)) # rest"
  using assms models_urls_ok [OF assms(3)]
  by (auto simp: runGenerate_def Let_def callFALAPI_def buildRequest_no_urls
      split: if_splits option.splits sum.splits prod.splits)

subsection \<open>Request builder\<close>

text \<open>
  Claim C1. The size directive is chosen in this order: a size flag other than the
  empty string and \<^verbatim>\<open>auto\<close> is used verbatim; else in edit mode with a model that
  supports \<^verbatim>\<open>auto\<close> it is \<^verbatim>\<open>auto\<close>; else in edit mode with an input image it is the
  nearest ratio for the decoded dimensions of the first image, and empty when the
  image cannot be decoded; else in generate mode it is \<^verbatim>\<open>4:3\<close>; else it is empty. A
  decoding failure does not end the run: the request is sent, without a size field.
\<close>

theorem sizeValue_priority:
  "(size_flag fl \<noteq> '''' \<and> size_flag fl \<noteq> ''auto'' \<longrightarrow>
      sizeValue w fl isEditMode info = size_flag fl)
   \<and> ((size_flag fl = '''' \<or> size_flag fl = ''auto'') \<and> isEditMode \<and> SupportsAutoImgSize info \<longrightarrow>
      sizeValue w fl isEditMode info = ''auto'')
   \<and> ((size_flag fl = '''' \<or> size_flag fl = ''auto'') \<and> isEditMode \<and> \<not> SupportsAutoImgSize info
        \<and> inputImages fl \<noteq> [] \<longrightarrow>
      (\<forall>width height. getImageDimensions w (hd (inputImages fl)) = Inr (width, height) \<longrightarrow>
         sizeValue w fl isEditMode info = getClosestRatio (mapOrder w) width height)
      \<and> (\<forall>err. getImageDimensions w (hd (inputImages fl)) = Inl err \<longrightarrow>
         sizeValue w fl isEditMode info = ''''))
   \<and> ((size_flag fl = '''' \<or> size_flag fl = ''auto'') \<and> \<not> isEditMode \<longrightarrow>
      sizeValue w fl isEditMode info = ''4:3'')
   \<and> ((size_flag fl = '''' \<or> size_flag fl = ''auto'') \<and> isEditMode \<and> \<not> SupportsAutoImgSize info
        \<and> inputImages fl = [] \<longrightarrow>
      sizeValue w fl isEditMode info = '''')
   \<and> (args \<noteq> [] \<and> getAPIKey w = Some apiKey
        \<and> map_of models (resolveModel (model_flag fl)) = Some info
        \<and> inputImages fl \<noteq> [] \<and> EditPath info \<noteq> '''' \<and> \<not> SupportsAutoImgSize info
        \<and> (size_flag fl = '''' \<or> size_flag fl = ''auto'')
        \<and> getImageDimensions w (hd (inputImages fl)) = Inl err
        \<and> imageURLs w 0 (inputImages fl) = Inr uris \<longrightarrow>
      (\<exists>body rest. fst (runGenerate w fl args)
           = HttpPost (falBaseURL @ ''/'' @ EditPath info) (''Key '' @ apiKey) body # rest
         \<and> map_of body ''image_size'' = None \<and> map_of body ''aspect_ratio'' = None))"
proof (intro conjI impI allI)
  assume a: "args \<noteq> [] \<and> getAPIKey w = Some apiKey
        \<and> map_of models (resolveModel (model_flag fl)) = Some info
        \<and> inputImages fl \<noteq> [] \<and> EditPath info \<noteq> '''' \<and> \<not> SupportsAutoImgSize info
        \<and> (size_flag fl = '''' \<or> size_flag fl = ''auto'')
        \<and> getImageDimensions w (hd (inputImages fl)) = Inl err
        \<and> imageURLs w 0 (inputImages fl) = Inr uris"
  then have sv: "sizeValue w fl (inputImages fl \<noteq> []) info = ''''"
    by (auto simp: sizeValue_def hd_conv_nth)
  define req where "req = (buildRequest (args ! 0) fl info '''')\<lparr>ImageURLs := uris\<rparr>"
  have none: "map_of (marshalImageRequest req) ''image_size'' = None"
             "map_of (marshalImageRequest req) ''aspect_ratio'' = None"
    by (simp_all add: marshal_image_size marshal_aspect_ratio req_def buildRequest_def Let_def)
  from a have "\<exists>rest. fst (runGenerate w fl args) =
           HttpPost (falBaseURL @ ''/'' @ (if inputImages fl \<noteq> [] then EditPath info else GenPath info))
             (''Key '' @ apiKey)
             (marshalImageRequest
                ((buildRequest (args ! 0) fl info (sizeValue w fl (inputImages fl \<noteq> []) info))
                   \<lparr>ImageURLs := uris\<rparr>)) # rest"
    by (intro runGenerate_sends) auto
  with a sv none show "\<exists>body rest. fst (runGenerate w fl args)
           = HttpPost (falBaseURL @ ''/'' @ EditPath info) (''Key '' @ apiKey) body # rest
         \<and> map_of body ''image_size'' = None \<and> map_of body ''aspect_ratio'' = None"
    unfolding req_def by auto
qed (auto simp: sizeValue_def hd_conv_nth)

theorem sizeValue_priority_witness:
  "([''add sunglasses''] \<noteq> [] \<and> getAPIKey exampleWorld = Some ''secret''
        \<and> map_of models (resolveModel (model_flag editBrokenFlags)) = Some qwenInfo
        \<and> inputImages editBrokenFlags \<noteq> []
        \<and> EditPath qwenInfo \<noteq> '''' \<and> \<not> SupportsAutoImgSize qwenInfo
        \<and> (size_flag editBrokenFlags = '''' \<or> size_flag editBrokenFlags = ''auto'')
        \<and> getImageDimensions exampleWorld (hd (inputImages editBrokenFlags))
            = Inl ''image: unknown format''
        \<and> imageURLs exampleWorld 0 (inputImages editBrokenFlags)
            = Inr [''data:image/png;base64,anVuaw==''])
   \<and> (\<exists>body rest.
          fst (runGenerate exampleWorld editBrokenFlags [''add sunglasses''])
            = HttpPost (falBaseURL @ ''/'' @ EditPath qwenInfo) (''Key '' @ ''secret'') body # rest
          \<and> map_of body ''image_size'' = None \<and> map_of body ''aspect_ratio'' = None)
   \<and> sizeValue exampleWorld editBrokenFlags True qwenInfo = ''''
   \<and> (size_flag (defaultFlags\<lparr>size_flag := ''3:2''\<rparr>) \<noteq> ''''
        \<and> size_flag (defaultFlags\<lparr>size_flag := ''3:2''\<rparr>) \<noteq> ''auto'')
   \<and> sizeValue exampleWorld (defaultFlags\<lparr>size_flag := ''3:2''\<rparr>) False qwenInfo = ''3:2''
   \<and> ((size_flag editPhotoFlags = '''' \<or> size_flag editPhotoFlags = ''auto'')
        \<and> SupportsAutoImgSize nanoBananaProInfo)
   \<and> sizeValue exampleWorld editPhotoFlags True nanoBananaProInfo = ''auto''
   \<and> (inputImages editPhotoFlags \<noteq> []
        \<and> getImageDimensions exampleWorld (hd (inputImages editPhotoFlags)) = Inr (1920, 1080))
   \<and> sizeValue exampleWorld editPhotoFlags True qwenInfo
        = getClosestRatio (mapOrder exampleWorld) 1920 1080
   \<and> getClosestRatio (mapOrder exampleWorld) 1920 1080 = ''16:9''
   \<and> (size_flag defaultFlags = '''' \<or> size_flag defaultFlags = ''auto'')
   \<and> sizeValue exampleWorld defaultFlags False qwenInfo = ''4:3''"
proof -
  have q: "\<not> SupportsAutoImgSize qwenInfo"
    by (simp add: qwenInfo_def)
  have h1: "size_flag (defaultFlags\<lparr>size_flag := ''3:2''\<rparr>) \<noteq> ''''
        \<and> size_flag (defaultFlags\<lparr>size_flag := ''3:2''\<rparr>) \<noteq> ''auto''"
    by simp
  from h1 sizeValue_priority [where w = exampleWorld and fl = "defaultFlags\<lparr>size_flag := ''3:2''\<rparr>"
      and info = qwenInfo and isEditMode = False]
  have c1: "sizeValue exampleWorld (defaultFlags\<lparr>size_flag := ''3:2''\<rparr>) False qwenInfo
      = size_flag (defaultFlags\<lparr>size_flag := ''3:2''\<rparr>)"
    by meson
  then have c1: "sizeValue exampleWorld (defaultFlags\<lparr>size_flag := ''3:2''\<rparr>) False qwenInfo = ''3:2''"
    by simp
  have h2: "(size_flag editPhotoFlags = '''' \<or> size_flag editPhotoFlags = ''auto'')
        \<and> SupportsAutoImgSize nanoBananaProInfo"
    by (simp add: editPhotoFlags_def defaultFlags_def nanoBananaProInfo_def)
  from h2 sizeValue_priority [where w = exampleWorld and fl = editPhotoFlags
      and info = nanoBananaProInfo and isEditMode = True]
  have c2: "sizeValue exampleWorld editPhotoFlags True nanoBananaProInfo = ''auto''"
    by meson
  have h3: "inputImages editPhotoFlags \<noteq> []
        \<and> getImageDimensions exampleWorld (hd (inputImages editPhotoFlags)) = Inr (1920, 1080)"
    by (simp add: editPhotoFlags_def defaultFlags_def getImageDimensions_def exampleWorld_def)
  from h2 h3 q sizeValue_priority [where w = exampleWorld and fl = editPhotoFlags
      and info = qwenInfo and isEditMode = True]
  have c3: "sizeValue exampleWorld editPhotoFlags True qwenInfo
        = getClosestRatio (mapOrder exampleWorld) 1920 1080"
    by meson
  have r3: "getClosestRatio (mapOrder exampleWorld) 1920 1080 = ''16:9''"
    by code_simp
  have h4: "size_flag defaultFlags = '''' \<or> size_flag defaultFlags = ''auto''"
    by (simp add: defaultFlags_def)
  from h4 sizeValue_priority [where w = exampleWorld and fl = defaultFlags
      and info = qwenInfo and isEditMode = False]
  have c4: "sizeValue exampleWorld defaultFlags False qwenInfo = ''4:3''"
    by meson
  have h: "[''add sunglasses''] \<noteq> [] \<and> getAPIKey exampleWorld = Some ''secret''
        \<and> map_of models (resolveModel (model_flag editBrokenFlags)) = Some qwenInfo
        \<and> inputImages editBrokenFlags \<noteq> []
        \<and> EditPath qwenInfo \<noteq> '''' \<and> \<not> SupportsAutoImgSize qwenInfo
        \<and> (size_flag editBrokenFlags = '''' \<or> size_flag editBrokenFlags = ''auto'')
        \<and> getImageDimensions exampleWorld (hd (inputImages editBrokenFlags))
            = Inl ''image: unknown format''
        \<and> imageURLs exampleWorld 0 (inputImages editBrokenFlags)
            = Inr [''data:image/png;base64,anVuaw=='']"
    by code_simp
  note t = sizeValue_priority [where w = exampleWorld and fl = editBrokenFlags
      and info = qwenInfo and isEditMode = True and args = "[''add sunglasses'']"
      and apiKey = "''secret''" and err = "''image: unknown format''"
      and uris = "[''data:image/png;base64,anVuaw=='']"]
  from t h have "\<exists>body rest.
          fst (runGenerate exampleWorld editBrokenFlags [''add sunglasses''])
            = HttpPost (falBaseURL @ ''/'' @ EditPath qwenInfo) (''Key '' @ ''secret'') body # rest
          \<and> map_of body ''image_size'' = None \<and> map_of body ''aspect_ratio'' = None"
    by blast
  moreover from t h have "sizeValue exampleWorld editBrokenFlags True qwenInfo = ''''"
    by blast
  ultimately show ?thesis using h h1 c1 h2 c2 h3 c3 r3 h4 c4 by meson
qed

text \<open>
  Claim C2. For a model whose \<^verbatim>\<open>SizeParamName\<close> is \<^verbatim>\<open>aspect_ratio\<close> a non-empty directive
  is written verbatim into the \<^verbatim>\<open>aspect_ratio\<close> field: it does not pass through
  \<^verbatim>\<open>parseSize\<close> and is not checked against \<^verbatim>\<open>aspectRatioSupported\<close>. For a model whose
  \<^verbatim>\<open>SizeParamName\<close> is \<^verbatim>\<open>image_size\<close> the directive \<^verbatim>\<open>auto\<close> is written as it is and any
  other non-empty directive is written after \<^verbatim>\<open>parseSize\<close>, which maps the five ratio
  strings to their presets and leaves every other string unchanged. For an ASCII
  directive the member of the JSON body holds the same string.
\<close>

theorem buildRequest_size_field:
  "(SizeParamName info = ''aspect_ratio'' \<and> sv \<noteq> '''' \<longrightarrow>
      AspectRatio (buildRequest prompt fl info sv) = sv)
   \<and> (SizeParamName info = ''aspect_ratio'' \<and> sv \<noteq> '''' \<and> \<not> aspectRatioSupported sv \<longrightarrow>
      AspectRatio (buildRequest prompt fl info sv) = sv)
   \<and> (SizeParamName info = ''image_size'' \<and> sv = ''auto'' \<longrightarrow>
      ImageSize (buildRequest prompt fl info sv) = Some ''auto'')
   \<and> (SizeParamName info = ''image_size'' \<and> sv \<noteq> '''' \<and> sv \<noteq> ''auto'' \<longrightarrow>
      ImageSize (buildRequest prompt fl info sv) = Some (parseSize sv))
   \<and> (SizeParamName info = ''aspect_ratio'' \<and> sv \<noteq> '''' \<and> isASCII sv \<longrightarrow>
      map_of (marshalImageRequest (buildRequest prompt fl info sv)) ''aspect_ratio''
        = Some (JString sv))
   \<and> (SizeParamName info = ''image_size'' \<and> sv \<noteq> '''' \<and> isASCII sv \<longrightarrow>
      map_of (marshalImageRequest (buildRequest prompt fl info sv)) ''image_size''
        = Some (JString (if sv = ''auto'' then ''auto'' else parseSize sv)))
   \<and> map parseSize [''9:16'', ''3:4'', ''1:1'', ''4:3'', ''16:9'']
        = [''portrait_16_9'', ''portrait_4_3'', ''square_hd'', ''landscape_4_3'', ''landscape_16_9'']
   \<and> (s \<notin> set [''9:16'', ''3:4'', ''1:1'', ''4:3'', ''16:9''] \<longrightarrow> parseSize s = s)"
proof (intro conjI impI)
  show "map parseSize [''9:16'', ''3:4'', ''1:1'', ''4:3'', ''16:9'']
        = [''portrait_16_9'', ''portrait_4_3'', ''square_hd'', ''landscape_4_3'', ''landscape_16_9'']"
    by (simp add: parseSize_def ratioToPreset_def)
next
  assume "s \<notin> set [''9:16'', ''3:4'', ''1:1'', ''4:3'', ''16:9'']"
  then have "map_of ratioToPreset s = None"
    by (simp add: ratioToPreset_def)
  then show "parseSize s = s"
    by (simp add: parseSize_def)
qed (simp_all add: buildRequest_def Let_def marshal_aspect_ratio marshal_image_size)

theorem buildRequest_size_field_witness:
  "(SizeParamName nanoBananaProInfo = ''aspect_ratio'' \<and> ''7:5'' \<noteq> ''''
        \<and> \<not> aspectRatioSupported ''7:5'')
   \<and> AspectRatio (buildRequest ''a cat'' defaultFlags nanoBananaProInfo ''7:5'') = ''7:5''
   \<and> (SizeParamName nanoBananaProInfo = ''aspect_ratio'' \<and> ''16:9'' \<noteq> '''' \<and> isASCII ''16:9'')
   \<and> map_of (marshalImageRequest (buildRequest ''a cat'' defaultFlags nanoBananaProInfo ''16:9''))
        ''aspect_ratio'' = Some (JString ''16:9'')
   \<and> (SizeParamName qwenInfo = ''image_size'' \<and> ''16:9'' \<noteq> '''' \<and> ''16:9'' \<noteq> ''auto'')
   \<and> ImageSize (buildRequest ''a cat'' defaultFlags qwenInfo ''16:9'') = Some ''landscape_16_9''
   \<and> ''square'' \<notin> set [''9:16'', ''3:4'', ''1:1'', ''4:3'', ''16:9'']
   \<and> parseSize ''square'' = ''square''"
proof -
  have h1: "SizeParamName nanoBananaProInfo = ''aspect_ratio'' \<and> ''7:5'' \<noteq> ''''
        \<and> \<not> aspectRatioSupported ''7:5''"
    by (simp add: nanoBananaProInfo_def aspectRatioSupported_def)
  have h2: "SizeParamName nanoBananaProInfo = ''aspect_ratio'' \<and> ''16:9'' \<noteq> '''' \<and> isASCII ''16:9''"
    by (simp add: nanoBananaProInfo_def isASCII_def)
  have h3: "SizeParamName qwenInfo = ''image_size'' \<and> ''16:9'' \<noteq> '''' \<and> ''16:9'' \<noteq> ''auto''"
    by (simp add: qwenInfo_def)
  have h4: "''square'' \<notin> set [''9:16'', ''3:4'', ''1:1'', ''4:3'', ''16:9'']"
    by simp
  have p: "parseSize ''16:9'' = ''landscape_16_9''"
    by (simp add: parseSize_def ratioToPreset_def)
  show ?thesis
    using h1 h2 h3 h4 p
      buildRequest_size_field [where info = nanoBananaProInfo and sv = "''7:5''"
        and prompt = "''a cat''" and fl = defaultFlags and s = "''square''"]
      buildRequest_size_field [where info = nanoBananaProInfo and sv = "''16:9''"
        and prompt = "''a cat''" and fl = defaultFlags and s = "''square''"]
      buildRequest_size_field [where info = qwenInfo and sv = "''16:9''"
        and prompt = "''a cat''" and fl = defaultFlags and s = "''square''"]
    by metis
qed

text \<open>
  Claim C10. A request carries at most one of the two size fields: for a model whose
  \<^verbatim>\<open>SizeParamName\<close> is \<^verbatim>\<open>aspect_ratio\<close> the field \<^verbatim>\<open>image_size\<close> is never set, for one whose
  \<^verbatim>\<open>SizeParamName\<close> is \<^verbatim>\<open>image_size\<close> the field \<^verbatim>\<open>aspect_ratio\<close> is never set, and no request
  that a run sends has both members in its JSON body.
\<close>

theorem at_most_one_size_field:
  "(SizeParamName info = ''aspect_ratio'' \<longrightarrow> ImageSize (buildRequest prompt fl info sv) = None)
   \<and> (SizeParamName info = ''image_size'' \<longrightarrow> AspectRatio (buildRequest prompt fl info sv) = '''')
   \<and> (ImageSize (buildRequest prompt fl info sv) = None
        \<or> AspectRatio (buildRequest prompt fl info sv) = '''')
   \<and> (HttpPost url auth body \<in> set (fst (runGenerate w fl args)) \<longrightarrow>
        map_of body ''image_size'' = None \<or> map_of body ''aspect_ratio'' = None)"
proof (intro conjI impI)
  assume "HttpPost url auth body \<in> set (fst (runGenerate w fl args))"
  from runGenerate_post [OF this] obtain info' uris where
    "body = marshalImageRequest
       ((buildRequest (args ! 0) fl info' (sizeValue w fl (inputImages fl \<noteq> []) info'))
          \<lparr>ImageURLs := uris\<rparr>)"
    by blast
  then show "map_of body ''image_size'' = None \<or> map_of body ''aspect_ratio'' = None"
    by (simp add: marshal_image_size marshal_aspect_ratio buildRequest_def Let_def)
qed (simp_all add: buildRequest_def Let_def)

theorem at_most_one_size_field_witness:
  "HttpPost ''https://fal.run/fal-ai/z-image/turbo'' ''Key secret''
      [(''prompt'', JString ''a cat''), (''image_size'', JString ''landscape_4_3''),
       (''output_format'', JString ''png''), (''enable_safety_checker'', JBool False)]
     \<in> set (fst (runGenerate exampleWorld defaultFlags [''a cat'']))
   \<and> (map_of [(''prompt'', JString ''a cat''), (''image_size'', JString ''landscape_4_3''),
               (''output_format'', JString ''png''), (''enable_safety_checker'', JBool False)]
         ''image_size'' = None
       \<or> map_of [(''prompt'', JString ''a cat''), (''image_size'', JString ''landscape_4_3''),
               (''output_format'', JString ''png''), (''enable_safety_checker'', JBool False)]
         ''aspect_ratio'' = None)
   \<and> SizeParamName nanoBananaProInfo = ''aspect_ratio''
   \<and> ImageSize (buildRequest ''a cat'' defaultFlags nanoBananaProInfo ''auto'') = None
   \<and> SizeParamName qwenInfo = ''image_size''
   \<and> AspectRatio (buildRequest ''a cat'' defaultFlags qwenInfo ''auto'') = ''''"
proof -
  have h: "HttpPost ''https://fal.run/fal-ai/z-image/turbo'' ''Key secret''
      [(''prompt'', JString ''a cat''), (''image_size'', JString ''landscape_4_3''),
       (''output_format'', JString ''png''), (''enable_safety_checker'', JBool False)]
     \<in> set (fst (runGenerate exampleWorld defaultFlags [''a cat'']))"
    by code_simp
  have n: "SizeParamName nanoBananaProInfo = ''aspect_ratio''"
    by (simp add: nanoBananaProInfo_def)
  have q: "SizeParamName qwenInfo = ''image_size''"
    by (simp add: qwenInfo_def)
  show ?thesis
    using h n q
      at_most_one_size_field [where w = exampleWorld and fl = defaultFlags
        and args = "[''a cat'']" and url = "''https://fal.run/fal-ai/z-image/turbo''"
        and auth = "''Key secret''" and info = nanoBananaProInfo and prompt = "''a cat''"
        and sv = "''auto''"
        and body = "[(''prompt'', JString ''a cat''), (''image_size'', JString ''landscape_4_3''),
       (''output_format'', JString ''png''), (''enable_safety_checker'', JBool False)]"]
      at_most_one_size_field [where w = exampleWorld and fl = defaultFlags
        and args = "[''a cat'']" and url = "''https://fal.run/fal-ai/z-image/turbo''"
        and auth = "''Key secret''" and info = qwenInfo and prompt = "''a cat''"
        and sv = "''auto''"
        and body = "[(''prompt'', JString ''a cat''), (''image_size'', JString ''landscape_4_3''),
       (''output_format'', JString ''png''), (''enable_safety_checker'', JBool False)]"]
    by meson
qed

text \<open>
  Claim C7. The request has a seed if and only if the seed flag is not negative: the
  JSON body that a run sends has the member \<^verbatim>\<open>seed\<close>, with the flag's value, exactly
  then, and has no such member for a negative flag, the default \<^verbatim>\<open>-1\<close> included.
\<close>

theorem seed_member_iff_nonnegative:
  "Seed (buildRequest prompt fl info sv) = (if 0 \<le> seed_flag fl then Some (seed_flag fl) else None)
   \<and> (HttpPost url auth body \<in> set (fst (runGenerate w fl args)) \<longrightarrow>
        map_of body ''seed'' = (if 0 \<le> seed_flag fl then Some (JNumber (seed_flag fl)) else None)
        \<and> (''seed'' \<in> fst ` set body) = (0 \<le> seed_flag fl))"
proof (intro conjI impI)
  show s: "Seed (buildRequest prompt fl info sv)
      = (if 0 \<le> seed_flag fl then Some (seed_flag fl) else None)" for prompt info sv
    by (simp add: buildRequest_def Let_def)
  assume "HttpPost url auth body \<in> set (fst (runGenerate w fl args))"
  from runGenerate_post [OF this] obtain info' uris where
    b: "body = marshalImageRequest
       ((buildRequest (args ! 0) fl info' (sizeValue w fl (inputImages fl \<noteq> []) info'))
          \<lparr>ImageURLs := uris\<rparr>)"
    by blast
  show m: "map_of body ''seed'' = (if 0 \<le> seed_flag fl then Some (JNumber (seed_flag fl)) else None)"
    by (simp add: b marshal_seed s)
  have "(''seed'' \<in> fst ` set body) = (map_of body ''seed'' \<noteq> None)"
    by (simp add: map_of_eq_None_iff)
  then show "(''seed'' \<in> fst ` set body) = (0 \<le> seed_flag fl)"
    by (simp add: m)
qed

theorem seed_member_iff_nonnegative_witness:
  "HttpPost ''https://fal.run/fal-ai/z-image/turbo'' ''Key secret''
      [(''prompt'', JString ''a cat''), (''image_size'', JString ''landscape_4_3''),
       (''output_format'', JString ''png''), (''seed'', JNumber 42),
       (''enable_safety_checker'', JBool False)]
     \<in> set (fst (runGenerate exampleWorld (defaultFlags\<lparr>seed_flag := 42\<rparr>) [''a cat'']))
   \<and> map_of [(''prompt'', JString ''a cat''), (''image_size'', JString ''landscape_4_3''),
       (''output_format'', JString ''png''), (''seed'', JNumber 42),
       (''enable_safety_checker'', JBool False)] ''seed''
      = (if 0 \<le> seed_flag (defaultFlags\<lparr>seed_flag := 42\<rparr>)
         then Some (JNumber (seed_flag (defaultFlags\<lparr>seed_flag := 42\<rparr>))) else None)
   \<and> HttpPost ''https://fal.run/fal-ai/z-image/turbo'' ''Key secret''
      [(''prompt'', JString ''a cat''), (''image_size'', JString ''landscape_4_3''),
       (''output_format'', JString ''png''), (''enable_safety_checker'', JBool False)]
     \<in> set (fst (runGenerate exampleWorld defaultFlags [''a cat'']))
   \<and> (''seed'' \<in> fst ` set [(''prompt'', JString ''a cat''), (''image_size'', JString ''landscape_4_3''),
       (''output_format'', JString ''png''), (''enable_safety_checker'', JBool False)])
      = (0 \<le> seed_flag defaultFlags)"
proof -
  have h42: "HttpPost ''https://fal.run/fal-ai/z-image/turbo'' ''Key secret''
      [(''prompt'', JString ''a cat''), (''image_size'', JString ''landscape_4_3''),
       (''output_format'', JString ''png''), (''seed'', JNumber 42),
       (''enable_safety_checker'', JBool False)]
     \<in> set (fst (runGenerate exampleWorld (defaultFlags\<lparr>seed_flag := 42\<rparr>) [''a cat'']))"
    by code_simp
  have h: "HttpPost ''https://fal.run/fal-ai/z-image/turbo'' ''Key secret''
      [(''prompt'', JString ''a cat''), (''image_size'', JString ''landscape_4_3''),
       (''output_format'', JString ''png''), (''enable_safety_checker'', JBool False)]
     \<in> set (fst (runGenerate exampleWorld defaultFlags [''a cat'']))"
    by code_simp
  show ?thesis
    using h42 h
      seed_member_iff_nonnegative [where w = exampleWorld
        and fl = "defaultFlags\<lparr>seed_flag := 42\<rparr>" and args = "[''a cat'']"
        and url = "''https://fal.run/fal-ai/z-image/turbo''" and auth = "''Key secret''"
        and body = "[(''prompt'', JString ''a cat''), (''image_size'', JString ''landscape_4_3''),
       (''output_format'', JString ''png''), (''seed'', JNumber 42),
       (''enable_safety_checker'', JBool False)]"]
      seed_member_iff_nonnegative [where w = exampleWorld
        and fl = defaultFlags and args = "[''a cat'']"
        and url = "''https://fal.run/fal-ai/z-image/turbo''" and auth = "''Key secret''"
        and body = "[(''prompt'', JString ''a cat''), (''image_size'', JString ''landscape_4_3''),
       (''output_format'', JString ''png''), (''enable_safety_checker'', JBool False)]"]
    by meson
qed

subsection \<open>Model resolution\<close>

text \<open>
  Claim C9. \<^verbatim>\<open>resolveModel\<close> looks the name up once in the alias table (the target is
  not looked up again) and the result is looked up in \<^verbatim>\<open>models\<close>. A run with a prompt
  whose model is unknown after that, or whose model has an empty edit path while input
  images are given, ends in a fatal error without any network call; with a key
  present the errors are the distinct \<open>UnknownModel\<close> and \<open>NoEditSupport\<close>.
\<close>

theorem model_resolution_rejects:
  "resolveModel ''flux2'' = ''flux2-pro''
   \<and> map_of models (resolveModel ''flux2'') = map_of models ''flux2-pro''
   \<and> (map_of modelAliases name = Some target \<longrightarrow> resolveModel name = target)
   \<and> (map_of modelAliases name = None \<longrightarrow> resolveModel name = name)
   \<and> (args \<noteq> [] \<and> map_of models (resolveModel (model_flag fl)) = None \<longrightarrow>
        fst (runGenerate w fl args) = [] \<and> isl (snd (runGenerate w fl args))
        \<and> (getAPIKey w \<noteq> None \<longrightarrow>
             snd (runGenerate w fl args) = Inl (UnknownModel (model_flag fl))))
   \<and> (args \<noteq> [] \<and> map_of models (resolveModel (model_flag fl)) = Some info
        \<and> EditPath info = '''' \<and> inputImages fl \<noteq> [] \<longrightarrow>
        fst (runGenerate w fl args) = [] \<and> isl (snd (runGenerate w fl args))
        \<and> (getAPIKey w \<noteq> None \<longrightarrow>
             snd (runGenerate w fl args) = Inl (NoEditSupport (model_flag fl))))
   \<and> UnknownModel (model_flag fl) \<noteq> NoEditSupport (model_flag fl)"
proof (intro conjI impI)
  show "resolveModel ''flux2'' = ''flux2-pro''"
    by (simp add: resolveModel_def modelAliases_def)
  then show "map_of models (resolveModel ''flux2'') = map_of models ''flux2-pro''"
    by simp
qed (auto simp: resolveModel_def runGenerate_def Let_def split: option.splits)

theorem model_resolution_rejects_witness:
  "([''a cat''] \<noteq> [] \<and> map_of models (resolveModel (model_flag (defaultFlags\<lparr>model_flag := ''dalle''\<rparr>))) = None)
   \<and> getAPIKey exampleWorld \<noteq> None
   \<and> runGenerate exampleWorld (defaultFlags\<lparr>model_flag := ''dalle''\<rparr>) [''a cat'']
       = ([], Inl (UnknownModel ''dalle''))
   \<and> ([''a cat''] \<noteq> []
        \<and> map_of models (resolveModel (model_flag (defaultFlags\<lparr>inputImages := [''photo.png'']\<rparr>)))
            = Some \<lparr>GenPath = ''fal-ai/z-image/turbo'', EditPath = '''',
                    SupportsAutoImgSize = False, SizeParamName = ''image_size''\<rparr>
        \<and> EditPath \<lparr>GenPath = ''fal-ai/z-image/turbo'', EditPath = '''',
                    SupportsAutoImgSize = False, SizeParamName = ''image_size''\<rparr> = ''''
        \<and> inputImages (defaultFlags\<lparr>inputImages := [''photo.png'']\<rparr>) \<noteq> [])
   \<and> runGenerate exampleWorld (defaultFlags\<lparr>inputImages := [''photo.png'']\<rparr>) [''a cat'']
       = ([], Inl (NoEditSupport ''z-turbo''))"
proof -
  let ?fu = "defaultFlags\<lparr>model_flag := ''dalle''\<rparr>"
  let ?fe = "defaultFlags\<lparr>inputImages := [''photo.png'']\<rparr>"
  let ?zt = "\<lparr>GenPath = ''fal-ai/z-image/turbo'', EditPath = '''',
                    SupportsAutoImgSize = False, SizeParamName = ''image_size''\<rparr>"
  have h1: "[''a cat''] \<noteq> [] \<and> map_of models (resolveModel (model_flag ?fu)) = None"
    by code_simp
  have k: "getAPIKey exampleWorld \<noteq> None"
    by (simp add: exampleWorld_def)
  have h2: "[''a cat''] \<noteq> [] \<and> map_of models (resolveModel (model_flag ?fe)) = Some ?zt
        \<and> EditPath ?zt = '''' \<and> inputImages ?fe \<noteq> []"
    by code_simp
  have m: "model_flag ?fu = ''dalle''" "model_flag ?fe = ''z-turbo''"
    by (simp_all add: defaultFlags_def)
  note t1 = model_resolution_rejects [where w = exampleWorld and fl = ?fu and args = "[''a cat'']"]
  note t2 = model_resolution_rejects [where w = exampleWorld and fl = ?fe and args = "[''a cat'']"
      and info = ?zt]
  from t1 h1 k have "fst (runGenerate exampleWorld ?fu [''a cat'']) = []
      \<and> snd (runGenerate exampleWorld ?fu [''a cat'']) = Inl (UnknownModel (model_flag ?fu))"
    by meson
  then have r1: "runGenerate exampleWorld ?fu [''a cat''] = ([], Inl (UnknownModel ''dalle''))"
    unfolding m by (metis prod.collapse)
  from t2 h2 k have "fst (runGenerate exampleWorld ?fe [''a cat'']) = []
      \<and> snd (runGenerate exampleWorld ?fe [''a cat'']) = Inl (NoEditSupport (model_flag ?fe))"
    by meson
  then have r2: "runGenerate exampleWorld ?fe [''a cat''] = ([], Inl (NoEditSupport ''z-turbo''))"
    unfolding m by (metis prod.collapse)
  from h1 k r1 h2 r2 show ?thesis by meson
qed

subsection \<open>Input images\<close>

lemma imageToDataURI_read:
  "os_ReadFile w p = Inr data \<Longrightarrow>
     imageToDataURI w p
       = Inr (''data:'' @ mimeType (strings_ToLower (filepath_Ext p)) @ '';base64,'' @ base64 data)"
  "os_ReadFile w p = Inl err \<Longrightarrow> imageToDataURI w p = Inl err"
  by (simp_all add: imageToDataURI_def Let_def)

lemma imageURLs_result:
  "imageURLs w i ps = Inr uris \<Longrightarrow>
     uris = map (\<lambda>p. projr (imageToDataURI w p)) ps \<and> (\<forall>p \<in> set ps. \<exists>d. os_ReadFile w p = Inr d)"
proof (induction ps arbitrary: i uris)
  case Nil
  then show ?case by simp
next
  case (Cons p ps)
  then show ?case
    by (cases "os_ReadFile w p")
       (auto simp: imageToDataURI_def Let_def split: sum.splits)
qed

lemma imageURLs_all_read:
  "\<forall>p \<in> set ps. \<exists>d. os_ReadFile w p = Inr d \<Longrightarrow>
     imageURLs w i ps = Inr (map (\<lambda>p. projr (imageToDataURI w p)) ps)"
  by (induction ps arbitrary: i) (auto simp: imageToDataURI_def Let_def)

lemma imageURLs_first_failure:
  "j < length ps \<Longrightarrow> os_ReadFile w (ps ! j) = Inl err \<Longrightarrow>
   \<forall>k<j. \<exists>d. os_ReadFile w (ps ! k) = Inr d \<Longrightarrow>
     imageURLs w i ps = Inl (ImageReadError (i + j + 1) (ps ! j) err)"
proof (induction ps arbitrary: i j)
  case Nil
  then show ?case by simp
next
  case (Cons p ps)
  show ?case
  proof (cases j)
    case 0
    with Cons.prems show ?thesis by (simp add: imageToDataURI_def)
  next
    case (Suc j')
    with Cons.prems obtain d where d: "os_ReadFile w p = Inr d"
      by fastforce
    from Suc Cons.prems have "\<forall>k<j'. \<exists>d. os_ReadFile w (ps ! k) = Inr d"
      by fastforce
    with Suc Cons.prems Cons.IH [of j' "i + 1"]
    have "imageURLs w (i + 1) ps = Inl (ImageReadError (i + 1 + j' + 1) (ps ! j') err)"
      by simp
    with Suc d show ?thesis by (simp add: imageToDataURI_def Let_def)
  qed
qed

lemma imageURLs_some_failure:
  "\<exists>p \<in> set ps. \<exists>e. os_ReadFile w p = Inl e \<Longrightarrow> \<exists>e. imageURLs w i ps = Inl e"
proof (induction ps arbitrary: i)
  case Nil
  then show ?case by simp
next
  case (Cons p ps)
  show ?case
  proof (cases "os_ReadFile w p")
    case (Inl e)
    then show ?thesis by (simp add: imageToDataURI_def)
  next
    case (Inr d)
    with Cons.prems have "\<exists>p \<in> set ps. \<exists>e. os_ReadFile w p = Inl e" by auto
    from Cons.IH [OF this, of "i + 1"] Inr show ?thesis
      by (auto simp: imageToDataURI_def Let_def)
  qed
qed

text \<open>
  Claim C8. Every input image is read, encoded in base64 and wrapped in a data URI
  whose MIME type comes from the lowered extension of the path alone (\<^verbatim>\<open>.png\<close>,
  \<^verbatim>\<open>.jpg\<close>, \<^verbatim>\<open>.jpeg\<close>, \<^verbatim>\<open>.webp\<close>, \<^verbatim>\<open>.gif\<close>, else \<^verbatim>\<open>application/octet-stream\<close>); the request
  of an edit run lists these URIs in order. When an image cannot be read the run ends
  in the fatal error that names the position (from 1) and the path of the first such
  image, and no request is sent.
\<close>

theorem input_images_all_or_nothing:
  "(os_ReadFile w p = Inr data \<longrightarrow>
      imageToDataURI w p
        = Inr (''data:'' @ mimeType (strings_ToLower (filepath_Ext p)) @ '';base64,'' @ base64 data))
   \<and> map mimeType [''.png'', ''.jpg'', ''.jpeg'', ''.webp'', ''.gif'']
        = [''image/png'', ''image/jpeg'', ''image/jpeg'', ''image/webp'', ''image/gif'']
   \<and> (ext \<notin> set [''.png'', ''.jpg'', ''.jpeg'', ''.webp'', ''.gif''] \<longrightarrow>
        mimeType ext = ''application/octet-stream'')
   \<and> (HttpPost url auth body \<in> set (fst (runGenerate w fl args)) \<and> inputImages fl \<noteq> [] \<longrightarrow>
        (\<forall>p \<in> set (inputImages fl). \<exists>d. os_ReadFile w p = Inr d)
        \<and> map_of body ''image_urls''
            = Some (JArray (map (\<lambda>p. JString (projr (imageToDataURI w p))) (inputImages fl))))
   \<and> ((\<exists>p \<in> set (inputImages fl). \<exists>e. os_ReadFile w p = Inl e) \<longrightarrow>
        fst (runGenerate w fl args) = []
        \<and> (args \<noteq> [] \<longrightarrow> isl (snd (runGenerate w fl args))))
   \<and> (args \<noteq> [] \<and> getAPIKey w = Some apiKey
        \<and> map_of models (resolveModel (model_flag fl)) = Some info \<and> EditPath info \<noteq> ''''
        \<and> j < length (inputImages fl) \<and> os_ReadFile w (inputImages fl ! j) = Inl err
        \<and> (\<forall>k<j. \<exists>d. os_ReadFile w (inputImages fl ! k) = Inr d) \<longrightarrow>
        runGenerate w fl args = ([], Inl (ImageReadError (j + 1) (inputImages fl ! j) err)))"
proof (intro conjI impI)
  assume "os_ReadFile w p = Inr data"
  then show "imageToDataURI w p
        = Inr (''data:'' @ mimeType (strings_ToLower (filepath_Ext p)) @ '';base64,'' @ base64 data)"
    by (rule imageToDataURI_read)
next
  show "map mimeType [''.png'', ''.jpg'', ''.jpeg'', ''.webp'', ''.gif'']
        = [''image/png'', ''image/jpeg'', ''image/jpeg'', ''image/webp'', ''image/gif'']"
    by (simp add: mimeType_def)
next
  assume "ext \<notin> set [''.png'', ''.jpg'', ''.jpeg'', ''.webp'', ''.gif'']"
  then show "mimeType ext = ''application/octet-stream''"
    by (simp add: mimeType_def)
next
  assume a: "HttpPost url auth body \<in> set (fst (runGenerate w fl args)) \<and> inputImages fl \<noteq> []"
  from runGenerate_post [of url auth body w fl args] a obtain info' uris where
    u: "imageURLs w 0 (inputImages fl) = Inr uris"
    and b: "body = marshalImageRequest
       ((buildRequest (args ! 0) fl info' (sizeValue w fl (inputImages fl \<noteq> []) info'))
          \<lparr>ImageURLs := uris\<rparr>)"
    by blast
  from imageURLs_result [OF u]
  have r: "uris = map (\<lambda>p. projr (imageToDataURI w p)) (inputImages fl)"
    and all: "\<forall>p \<in> set (inputImages fl). \<exists>d. os_ReadFile w p = Inr d"
    by simp_all
  from all show "\<forall>p \<in> set (inputImages fl). \<exists>d. os_ReadFile w p = Inr d" .
  from a r have ne: "uris \<noteq> []" by simp
  have "map_of body ''image_urls'' = Some (JArray (map JString uris))"
    using ne by (simp add: b marshalImageRequest_def split: option.splits)
  then show "map_of body ''image_urls''
            = Some (JArray (map (\<lambda>p. JString (projr (imageToDataURI w p))) (inputImages fl)))"
    by (simp add: r comp_def)
next
  assume a: "\<exists>p \<in> set (inputImages fl). \<exists>e. os_ReadFile w p = Inl e"
  then have ne: "inputImages fl \<noteq> []" by auto
  from imageURLs_some_failure [OF a] obtain e where e: "imageURLs w 0 (inputImages fl) = Inl e"
    by blast
  show "fst (runGenerate w fl args) = []"
    using ne e by (simp add: runGenerate_def Let_def split: option.splits)
  show "isl (snd (runGenerate w fl args))" if "args \<noteq> []"
    using that ne e by (simp add: runGenerate_def Let_def split: option.splits)
next
  assume a: "args \<noteq> [] \<and> getAPIKey w = Some apiKey
        \<and> map_of models (resolveModel (model_flag fl)) = Some info \<and> EditPath info \<noteq> ''''
        \<and> j < length (inputImages fl) \<and> os_ReadFile w (inputImages fl ! j) = Inl err
        \<and> (\<forall>k<j. \<exists>d. os_ReadFile w (inputImages fl ! k) = Inr d)"
  then have ne: "inputImages fl \<noteq> []" by auto
  from a imageURLs_first_failure [of j "inputImages fl" w err 0]
  have "imageURLs w 0 (inputImages fl) = Inl (ImageReadError (j + 1) (inputImages fl ! j) err)"
    by simp
  with a ne show "runGenerate w fl args = ([], Inl (ImageReadError (j + 1) (inputImages fl ! j) err))"
    by (simp add: runGenerate_def Let_def)
qed

theorem input_images_all_or_nothing_witness:
  "os_ReadFile exampleWorld ''photo.png'' = Inr ''pixels''
   \<and> imageToDataURI exampleWorld ''photo.png'' = Inr ''data:image/png;base64,cGl4ZWxz''
   \<and> ([''add sunglasses''] \<noteq> [] \<and> getAPIKey exampleWorld = Some ''secret''
        \<and> map_of models (resolveModel (model_flag editMissingFlags)) = Some qwenInfo
        \<and> EditPath qwenInfo \<noteq> ''''
        \<and> 1 < length (inputImages editMissingFlags)
        \<and> os_ReadFile exampleWorld (inputImages editMissingFlags ! 1) = Inl ''no such file or directory''
        \<and> os_ReadFile exampleWorld (inputImages editMissingFlags ! 0) = Inr ''pixels'')
   \<and> runGenerate exampleWorld editMissingFlags [''add sunglasses'']
       = ([], Inl (ImageReadError 2 ''missing.jpg'' ''no such file or directory''))
   \<and> (HttpPost ''https://fal.run/fal-ai/qwen-image-edit-plus'' ''Key secret''
         [(''prompt'', JString ''add sunglasses''), (''image_size'', JString ''landscape_16_9''),
          (''output_format'', JString ''png''),
          (''image_urls'', JArray [JString ''data:image/png;base64,cGl4ZWxz'']),
          (''enable_safety_checker'', JBool False)]
        \<in> set (fst (runGenerate exampleWorld editPhotoFlags [''add sunglasses'']))
        \<and> inputImages editPhotoFlags \<noteq> [])
   \<and> map_of
         [(''prompt'', JString ''add sunglasses''), (''image_size'', JString ''landscape_16_9''),
          (''output_format'', JString ''png''),
          (''image_urls'', JArray [JString ''data:image/png;base64,cGl4ZWxz'']),
          (''enable_safety_checker'', JBool False)] ''image_urls''
       = Some (JArray (map (\<lambda>p. JString (projr (imageToDataURI exampleWorld p)))
                        (inputImages editPhotoFlags)))
   \<and> ''.bmp'' \<notin> set [''.png'', ''.jpg'', ''.jpeg'', ''.webp'', ''.gif'']
   \<and> mimeType ''.bmp'' = ''application/octet-stream''"
proof -
  have x: "''.bmp'' \<notin> set [''.png'', ''.jpg'', ''.jpeg'', ''.webp'', ''.gif'']"
    by simp
  with input_images_all_or_nothing [where ext = "''.bmp''"]
  have y: "mimeType ''.bmp'' = ''application/octet-stream''"
    by meson
  let ?body = "[(''prompt'', JString ''add sunglasses''), (''image_size'', JString ''landscape_16_9''),
          (''output_format'', JString ''png''),
          (''image_urls'', JArray [JString ''data:image/png;base64,cGl4ZWxz'']),
          (''enable_safety_checker'', JBool False)]"
  have g: "HttpPost ''https://fal.run/fal-ai/qwen-image-edit-plus'' ''Key secret'' ?body
        \<in> set (fst (runGenerate exampleWorld editPhotoFlags [''add sunglasses'']))
        \<and> inputImages editPhotoFlags \<noteq> []"
    by code_simp
  from g input_images_all_or_nothing [where w = exampleWorld and fl = editPhotoFlags
      and args = "[''add sunglasses'']" and url = "''https://fal.run/fal-ai/qwen-image-edit-plus''"
      and auth = "''Key secret''" and body = ?body]
  have m: "map_of ?body ''image_urls''
       = Some (JArray (map (\<lambda>p. JString (projr (imageToDataURI exampleWorld p)))
                        (inputImages editPhotoFlags)))"
    by meson
  have r: "os_ReadFile exampleWorld ''photo.png'' = Inr ''pixels''"
    by (simp add: exampleWorld_def)
  have u0: "imageToDataURI exampleWorld ''photo.png''
      = Inr (''data:'' @ mimeType (strings_ToLower (filepath_Ext ''photo.png''))
             @ '';base64,'' @ base64 ''pixels'')"
    using input_images_all_or_nothing [where w = exampleWorld and p = "''photo.png''"
        and data = "''pixels''"] r
    by meson
  have "''data:'' @ mimeType (strings_ToLower (filepath_Ext ''photo.png''))
             @ '';base64,'' @ base64 ''pixels'' = ''data:image/png;base64,cGl4ZWxz''"
    by code_simp
  with u0 have u: "imageToDataURI exampleWorld ''photo.png'' = Inr ''data:image/png;base64,cGl4ZWxz''"
    by (simp only:)
  have h: "[''add sunglasses''] \<noteq> [] \<and> getAPIKey exampleWorld = Some ''secret''
        \<and> map_of models (resolveModel (model_flag editMissingFlags)) = Some qwenInfo
        \<and> EditPath qwenInfo \<noteq> ''''
        \<and> 1 < length (inputImages editMissingFlags)
        \<and> os_ReadFile exampleWorld (inputImages editMissingFlags ! 1) = Inl ''no such file or directory''
        \<and> os_ReadFile exampleWorld (inputImages editMissingFlags ! 0) = Inr ''pixels''"
    by (simp add: exampleWorld_def editMissingFlags_def defaultFlags_def qwenInfo_def
        resolveModel_def modelAliases_def models_def)
  then have a: "\<forall>k<1. \<exists>d. os_ReadFile exampleWorld (inputImages editMissingFlags ! k) = Inr d"
    by simp
  have i: "inputImages editMissingFlags ! 1 = ''missing.jpg''"
    by (simp add: editMissingFlags_def defaultFlags_def)
  from h a input_images_all_or_nothing [where w = exampleWorld and fl = editMissingFlags
      and args = "[''add sunglasses'']" and apiKey = "''secret''" and info = qwenInfo
      and j = 1 and err = "''no such file or directory''"]
  have "runGenerate exampleWorld editMissingFlags [''add sunglasses'']
       = ([], Inl (ImageReadError (1 + 1) (inputImages editMissingFlags ! 1) ''no such file or directory''))"
    by meson
  then have "runGenerate exampleWorld editMissingFlags [''add sunglasses'']
       = ([], Inl (ImageReadError 2 ''missing.jpg'' ''no such file or directory''))"
    unfolding i by simp
  with r u h g m x y show ?thesis by meson
qed

subsection \<open>API client\<close>

text \<open>
  \<^verbatim>\<open>http.NewRequest\<close> on some URLs: a bad escape in the path or in the fragment fails, an
  escape in the query is not looked at; \<^verbatim>\<open>callFALAPI\<close> on such a path returns before any
  network call.
\<close>

lemma newRequestFails_values:
  "newRequestFails ''https://fal.run/%zz''"
  "newRequestFails ''https://fal.run/x#%2''"
  "\<not> newRequestFails ''https://fal.run/a%20b''"
  "\<not> newRequestFails ''https://fal.run/x?q=%zz''"
  "callFALAPI w apiKey ''%zz'' req = ([], Inl CreateRequestFailed)"
proof -
  show a: "newRequestFails ''https://fal.run/%zz''" by code_simp
  show "newRequestFails ''https://fal.run/x#%2''" by code_simp
  show "\<not> newRequestFails ''https://fal.run/a%20b''" by code_simp
  show "\<not> newRequestFails ''https://fal.run/x?q=%zz''" by code_simp
  from a show "callFALAPI w apiKey ''%zz'' req = ([], Inl CreateRequestFailed)"
    by (simp add: callFALAPI_def falBaseURL_def)
qed

lemma runGenerate_after_post:
  assumes "HttpPost url auth sent \<in> set (fst (runGenerate w fl args))"
    and "client_Do w url auth sent = Inr (status, Inr raw)"
  shows "snd (runGenerate w fl args)
      = (if status \<noteq> 200 then Inl (CallFailed (APIError status (errorMessage w raw)))
         else case unmarshalImageResponse w raw of
                Inl err \<Rightarrow> Inl (CallFailed (ParseResponseFailed err))
              | Inr resp \<Rightarrow>
                  if length (Images resp) = 0 then Inl NoImagesReturned
                  else (case downloadImage w (URL (Images resp ! 0))
                               (resolveOutPath w (output_flag fl) (format_flag fl)) of
                          Some err \<Rightarrow> Inl (SaveImageFailed err)
                        | None \<Rightarrow> Inr (ImageSaved
                            (resolveOutPath w (output_flag fl) (format_flag fl)) resp)))"
proof -
  from runGenerate_post [OF assms(1)] obtain apiKey info uris where
    p: "args \<noteq> []" "getAPIKey w = Some apiKey"
       "map_of models (resolveModel (model_flag fl)) = Some info"
       "inputImages fl \<noteq> [] \<longrightarrow> EditPath info \<noteq> '''' \<and> imageURLs w 0 (inputImages fl) = Inr uris"
       "inputImages fl = [] \<longrightarrow> uris = []"
       "url = falBaseURL @ ''/'' @ (if inputImages fl \<noteq> [] then EditPath info else GenPath info)"
       "auth = ''Key '' @ apiKey"
       "sent = marshalImageRequest
                 ((buildRequest (args ! 0) fl info (sizeValue w fl (inputImages fl \<noteq> []) info))
                    \<lparr>ImageURLs := uris\<rparr>)"
    by blast
  show ?thesis
    using p assms(2) models_urls_ok [OF p(3)]
    by (cases "inputImages fl = []")
       (auto simp: runGenerate_def Let_def callFALAPI_def buildRequest_no_urls
        split: sum.splits prod.splits option.splits)
qed

text \<open>
  Claim C4, as the code has it. When the service answers the request of a run with a
  status other than 200, so with every non-success status, the run ends in the API
  error that carries the status and a message taken from the first shape that
  matches: the message of the first entry when the body decodes to a non-empty list of
  validation errors; else the \<^verbatim>\<open>detail\<close> string when the body decodes to a flat object
  with a non-empty one; else the raw body, which is what an empty \<^verbatim>\<open>detail\<close> string
  gives too. The bodies \<^verbatim>\<open>{"detail":[{"msg":"bad prompt"}]}\<close> and
  \<^verbatim>\<open>{"detail":"bad prompt"}\<close>, decoded as \<^verbatim>\<open>json.Unmarshal\<close> decodes them, both give the
  message \<^verbatim>\<open>bad prompt\<close>.
\<close>

theorem api_error_message_shapes:
  \<open>(HttpPost url auth sent \<in> set (fst (runGenerate w fl args))
        \<and> client_Do w url auth sent = Inr (status, Inr body) \<and> status \<noteq> 200 \<longrightarrow>
      snd (runGenerate w fl args) = Inl (CallFailed (APIError status (errorMessage w body))))
   \<and> (unmarshalDetailedErr w body = Inr (d # ds) \<longrightarrow> errorMessage w body = Msg d)
   \<and> (((\<exists>e. unmarshalDetailedErr w body = Inl e) \<or> unmarshalDetailedErr w body = Inr [])
        \<and> unmarshalSimpleErr w body = Inr detail \<and> detail \<noteq> '''' \<longrightarrow>
      errorMessage w body = detail)
   \<and> (((\<exists>e. unmarshalDetailedErr w body = Inl e) \<or> unmarshalDetailedErr w body = Inr [])
        \<and> ((\<exists>e. unmarshalSimpleErr w body = Inl e) \<or> unmarshalSimpleErr w body = Inr '''') \<longrightarrow>
      errorMessage w body = body)
   \<and> (unmarshalDetailedErr w ''{"detail":[{"msg":"bad prompt"}]}''
        = Inr [\<lparr>Msg = ''bad prompt'', Type = ''''\<rparr>] \<longrightarrow>
      errorMessage w ''{"detail":[{"msg":"bad prompt"}]}'' = ''bad prompt'')
   \<and> ((\<exists>e. unmarshalDetailedErr w ''{"detail":"bad prompt"}'' = Inl e)
        \<and> unmarshalSimpleErr w ''{"detail":"bad prompt"}'' = Inr ''bad prompt'' \<longrightarrow>
      errorMessage w ''{"detail":"bad prompt"}'' = ''bad prompt'')\<close>
proof (intro conjI impI)
  assume "HttpPost url auth sent \<in> set (fst (runGenerate w fl args))
        \<and> client_Do w url auth sent = Inr (status, Inr body) \<and> status \<noteq> 200"
  then show "snd (runGenerate w fl args) = Inl (CallFailed (APIError status (errorMessage w body)))"
    using runGenerate_after_post [of url auth sent w fl args status body] by simp
qed (auto simp: errorMessage_def split: sum.splits list.splits)

theorem api_error_message_shapes_witness:
  \<open>(HttpPost ''https://fal.run/fal-ai/flux-2-pro'' ''Key secret''
        [(''prompt'', JString ''a cat''), (''image_size'', JString ''landscape_4_3''),
         (''output_format'', JString ''png''), (''enable_safety_checker'', JBool False)]
       \<in> set (fst (runGenerate exampleWorld (defaultFlags\<lparr>model_flag := ''flux2''\<rparr>) [''a cat'']))
      \<and> client_Do exampleWorld ''https://fal.run/fal-ai/flux-2-pro'' ''Key secret''
          [(''prompt'', JString ''a cat''), (''image_size'', JString ''landscape_4_3''),
           (''output_format'', JString ''png''), (''enable_safety_checker'', JBool False)]
          = Inr (422, Inr ''{"detail":[{"msg":"bad prompt"}]}'') \<and> (422 :: int) \<noteq> 200)
   \<and> unmarshalDetailedErr exampleWorld ''{"detail":[{"msg":"bad prompt"}]}''
        = Inr [\<lparr>Msg = ''bad prompt'', Type = ''''\<rparr>]
   \<and> snd (runGenerate exampleWorld (defaultFlags\<lparr>model_flag := ''flux2''\<rparr>) [''a cat''])
        = Inl (CallFailed (APIError 422 ''bad prompt''))
   \<and> ((\<exists>e. unmarshalDetailedErr exampleWorld ''{"detail":"bad prompt"}'' = Inl e)
        \<and> unmarshalSimpleErr exampleWorld ''{"detail":"bad prompt"}'' = Inr ''bad prompt'')
   \<and> errorMessage exampleWorld ''{"detail":"bad prompt"}'' = ''bad prompt''
   \<and> (((\<exists>e. unmarshalDetailedErr exampleWorld ''Internal Server Error'' = Inl e)
         \<or> unmarshalDetailedErr exampleWorld ''Internal Server Error'' = Inr [])
        \<and> ((\<exists>e. unmarshalSimpleErr exampleWorld ''Internal Server Error'' = Inl e)
         \<or> unmarshalSimpleErr exampleWorld ''Internal Server Error'' = Inr ''''))
   \<and> errorMessage exampleWorld ''Internal Server Error'' = ''Internal Server Error''
   \<and> snd (runGenerate exampleWorld (defaultFlags\<lparr>model_flag := ''flux2-flex''\<rparr>) [''a cat''])
        = Inl (CallFailed (APIError 400 ''bad prompt''))\<close>
proof -
  let ?fl = "defaultFlags\<lparr>model_flag := ''flux2''\<rparr>"
  let ?sent = "[(''prompt'', JString ''a cat''), (''image_size'', JString ''landscape_4_3''),
         (''output_format'', JString ''png''), (''enable_safety_checker'', JBool False)]"
  have h1: \<open>HttpPost ''https://fal.run/fal-ai/flux-2-pro'' ''Key secret'' ?sent
       \<in> set (fst (runGenerate exampleWorld ?fl [''a cat'']))
      \<and> client_Do exampleWorld ''https://fal.run/fal-ai/flux-2-pro'' ''Key secret'' ?sent
          = Inr (422, Inr ''{"detail":[{"msg":"bad prompt"}]}'') \<and> (422 :: int) \<noteq> 200\<close>
    by code_simp
  have h2: \<open>unmarshalDetailedErr exampleWorld ''{"detail":[{"msg":"bad prompt"}]}''
        = Inr [\<lparr>Msg = ''bad prompt'', Type = ''''\<rparr>]\<close>
    by (simp add: exampleWorld_def)
  have h3: \<open>(\<exists>e. unmarshalDetailedErr exampleWorld ''{"detail":"bad prompt"}'' = Inl e)
        \<and> unmarshalSimpleErr exampleWorld ''{"detail":"bad prompt"}'' = Inr ''bad prompt''\<close>
    by (simp add: exampleWorld_def)
  have h4: "((\<exists>e. unmarshalDetailedErr exampleWorld ''Internal Server Error'' = Inl e)
         \<or> unmarshalDetailedErr exampleWorld ''Internal Server Error'' = Inr [])
        \<and> ((\<exists>e. unmarshalSimpleErr exampleWorld ''Internal Server Error'' = Inl e)
         \<or> unmarshalSimpleErr exampleWorld ''Internal Server Error'' = Inr '''')"
    by (simp add: exampleWorld_def)
  note t1 = api_error_message_shapes [where w = exampleWorld and fl = ?fl
      and args = "[''a cat'']" and url = "''https://fal.run/fal-ai/flux-2-pro''"
      and auth = "''Key secret''" and sent = ?sent and status = 422
      and body = \<open>''{"detail":[{"msg":"bad prompt"}]}''\<close>]
  note t2 = api_error_message_shapes [where w = exampleWorld
      and body = "''Internal Server Error''"]
  from t1 h2 have m1: \<open>errorMessage exampleWorld ''{"detail":[{"msg":"bad prompt"}]}'' = ''bad prompt''\<close>
    by meson
  from t1 h1 have \<open>snd (runGenerate exampleWorld ?fl [''a cat''])
        = Inl (CallFailed (APIError 422 (errorMessage exampleWorld ''{"detail":[{"msg":"bad prompt"}]}'')))\<close>
    by meson
  then have c1: "snd (runGenerate exampleWorld ?fl [''a cat''])
        = Inl (CallFailed (APIError 422 ''bad prompt''))"
    unfolding m1 .
  from t1 h3 have m2: \<open>errorMessage exampleWorld ''{"detail":"bad prompt"}'' = ''bad prompt''\<close>
    by meson
  from t2 h4 have m3: "errorMessage exampleWorld ''Internal Server Error'' = ''Internal Server Error''"
    by meson
  have r2: "snd (runGenerate exampleWorld (defaultFlags\<lparr>model_flag := ''flux2-flex''\<rparr>) [''a cat''])
        = Inl (CallFailed (APIError 400 ''bad prompt''))"
    by code_simp
  from h1 h2 c1 h3 m2 h4 m3 r2 show ?thesis by meson
qed

text \<open>
  The claim as it is worded fails on the body \<^verbatim>\<open>{"detail":""}\<close>: it is a flat object with
  a string \<^verbatim>\<open>detail\<close>, so shape (b) would give the empty message, but the code asks for
  a non-empty string (main.go 400) and surfaces the raw body.
\<close>

theorem empty_detail_counterexample:
  \<open>errorMessage exampleWorld ''{"detail":""}'' = ''{"detail":""}''
   \<and> errorMessage_spec exampleWorld ''{"detail":""}'' = ''''\<close>
  by code_simp

text \<open>
  Claim C6. A response with a 2xx status whose body decodes to an empty image list
  ends the run in a fatal error, never in success: with status 200 the error is
  \<open>NoImagesReturned\<close> (a 2xx status other than 200 is an API error before any
  decoding). Every successful outcome holds at least one image.
\<close>

theorem empty_image_list_is_failure:
  "(HttpPost url auth body \<in> set (fst (runGenerate w fl args))
      \<and> client_Do w url auth body = Inr (status, Inr raw)
      \<and> 200 \<le> status \<and> status < 300
      \<and> unmarshalImageResponse w raw = Inr response \<and> Images response = [] \<longrightarrow>
      isl (snd (runGenerate w fl args))
      \<and> (status = 200 \<longrightarrow> snd (runGenerate w fl args) = Inl NoImagesReturned))
   \<and> (snd (runGenerate w fl args) = Inr (ImageSaved path saved) \<longrightarrow> Images saved \<noteq> [])"
proof (intro conjI impI)
  assume "snd (runGenerate w fl args) = Inr (ImageSaved path saved)"
  then show "Images saved \<noteq> []"
    by (auto simp: runGenerate_def Let_def
        split: if_splits option.splits sum.splits prod.splits)
next
  assume a: "HttpPost url auth body \<in> set (fst (runGenerate w fl args))
      \<and> client_Do w url auth body = Inr (status, Inr raw)
      \<and> 200 \<le> status \<and> status < 300
      \<and> unmarshalImageResponse w raw = Inr response \<and> Images response = []"
  from runGenerate_post [of url auth body w fl args] a obtain apiKey info uris where
    p: "args \<noteq> []" "getAPIKey w = Some apiKey"
       "map_of models (resolveModel (model_flag fl)) = Some info"
       "inputImages fl \<noteq> [] \<longrightarrow> EditPath info \<noteq> '''' \<and> imageURLs w 0 (inputImages fl) = Inr uris"
       "inputImages fl = [] \<longrightarrow> uris = []"
       "url = falBaseURL @ ''/'' @ (if inputImages fl \<noteq> [] then EditPath info else GenPath info)"
       "auth = ''Key '' @ apiKey"
       "body = marshalImageRequest
                 ((buildRequest (args ! 0) fl info (sizeValue w fl (inputImages fl \<noteq> []) info))
                    \<lparr>ImageURLs := uris\<rparr>)"
    by blast
  define modelPath where "modelPath = (if inputImages fl \<noteq> [] then EditPath info else GenPath info)"
  define req where "req = (buildRequest (args ! 0) fl info (sizeValue w fl (inputImages fl \<noteq> []) info))
                    \<lparr>ImageURLs := uris\<rparr>"
  have c: "snd (callFALAPI w apiKey modelPath req)
      = (if status \<noteq> 200 then Inl (APIError status (errorMessage w raw)) else Inr response)"
    using a p models_urls_ok [OF p(3)]
    by (simp add: callFALAPI_def Let_def modelPath_def req_def)
  have r: "snd (runGenerate w fl args)
      = (case snd (callFALAPI w apiKey modelPath req) of
           Inl err \<Rightarrow> Inl (CallFailed err)
         | Inr resp \<Rightarrow>
             if length (Images resp) = 0 then Inl NoImagesReturned
             else (case downloadImage w (URL (Images resp ! 0))
                          (resolveOutPath w (output_flag fl) (format_flag fl)) of
                     Some err \<Rightarrow> Inl (SaveImageFailed err)
                   | None \<Rightarrow> Inr (ImageSaved (resolveOutPath w (output_flag fl) (format_flag fl)) resp)))"
    using p
    by (cases "inputImages fl = []")
       (auto simp: runGenerate_def Let_def modelPath_def req_def buildRequest_no_urls
        split: sum.splits prod.splits option.splits)
  show "isl (snd (runGenerate w fl args))"
    using a by (simp add: r c)
  show "snd (runGenerate w fl args) = Inl NoImagesReturned" if "status = 200"
    using a that by (simp add: r c)
qed

theorem empty_image_list_is_failure_witness:
  \<open>(HttpPost ''https://fal.run/fal-ai/qwen-image'' ''Key secret''
       [(''prompt'', JString ''a cat''), (''image_size'', JString ''landscape_4_3''),
        (''output_format'', JString ''png''), (''enable_safety_checker'', JBool False)]
      \<in> set (fst (runGenerate exampleWorld (defaultFlags\<lparr>model_flag := ''qwen''\<rparr>) [''a cat'']))
      \<and> client_Do exampleWorld ''https://fal.run/fal-ai/qwen-image'' ''Key secret''
          [(''prompt'', JString ''a cat''), (''image_size'', JString ''landscape_4_3''),
           (''output_format'', JString ''png''), (''enable_safety_checker'', JBool False)]
          = Inr (200, Inr ''{"images":[]}'')
      \<and> (200 :: int) \<le> 200 \<and> (200 :: int) < 300
      \<and> unmarshalImageResponse exampleWorld ''{"images":[]}''
          = Inr \<lparr>Images = [], ResponseSeed = 0\<rparr>
      \<and> Images \<lparr>Images = [], ResponseSeed = 0\<rparr> = [])
   \<and> snd (runGenerate exampleWorld (defaultFlags\<lparr>model_flag := ''qwen''\<rparr>) [''a cat''])
        = Inl NoImagesReturned
   \<and> snd (runGenerate exampleWorld (defaultFlags\<lparr>model_flag := ''nano-banana''\<rparr>) [''a cat''])
        = Inl (CallFailed (APIError 201 ''{"images":[]}''))
   \<and> snd (runGenerate exampleWorld defaultFlags [''a cat''])
        = Inr (ImageSaved ''generated_0.png''
             \<lparr>Images = [\<lparr>URL = ''https://cdn/x.png'', Width = 0, Height = 0, ContentType = ''''\<rparr>],
              ResponseSeed = 7\<rparr>)
   \<and> Images \<lparr>Images = [\<lparr>URL = ''https://cdn/x.png'', Width = 0, Height = 0, ContentType = ''''\<rparr>],
              ResponseSeed = 7\<rparr> \<noteq> []\<close>
proof -
  let ?fl = "defaultFlags\<lparr>model_flag := ''qwen''\<rparr>"
  let ?body = "[(''prompt'', JString ''a cat''), (''image_size'', JString ''landscape_4_3''),
        (''output_format'', JString ''png''), (''enable_safety_checker'', JBool False)]"
  let ?saved = "\<lparr>Images = [\<lparr>URL = ''https://cdn/x.png'', Width = 0, Height = 0, ContentType = ''''\<rparr>],
              ResponseSeed = 7\<rparr>"
  have h: \<open>HttpPost ''https://fal.run/fal-ai/qwen-image'' ''Key secret'' ?body
      \<in> set (fst (runGenerate exampleWorld ?fl [''a cat'']))
      \<and> client_Do exampleWorld ''https://fal.run/fal-ai/qwen-image'' ''Key secret'' ?body
          = Inr (200, Inr ''{"images":[]}'')
      \<and> (200 :: int) \<le> 200 \<and> (200 :: int) < 300
      \<and> unmarshalImageResponse exampleWorld ''{"images":[]}''
          = Inr \<lparr>Images = [], ResponseSeed = 0\<rparr>
      \<and> Images \<lparr>Images = [], ResponseSeed = 0\<rparr> = []\<close>
    by code_simp
  have s: "snd (runGenerate exampleWorld defaultFlags [''a cat''])
        = Inr (ImageSaved ''generated_0.png'' ?saved)"
    by code_simp
  have n: \<open>snd (runGenerate exampleWorld (defaultFlags\<lparr>model_flag := ''nano-banana''\<rparr>) [''a cat''])
        = Inl (CallFailed (APIError 201 ''{"images":[]}''))\<close>
    by code_simp
  note t1 = empty_image_list_is_failure [where w = exampleWorld and fl = ?fl
      and args = "[''a cat'']" and url = "''https://fal.run/fal-ai/qwen-image''"
      and auth = "''Key secret''" and body = ?body and status = 200
      and raw = \<open>''{"images":[]}''\<close> and response = "\<lparr>Images = [], ResponseSeed = 0\<rparr>"]
  note t2 = empty_image_list_is_failure [where w = exampleWorld and fl = defaultFlags
      and args = "[''a cat'']" and path = "''generated_0.png''" and saved = ?saved]
  from t1 h have e: "snd (runGenerate exampleWorld ?fl [''a cat'']) = Inl NoImagesReturned"
    by meson
  from t2 s have i: "Images ?saved \<noteq> []"
    by meson
  from h e n s i show ?thesis by meson
qed

end
